theory Spec2Isabelle
  imports Complex_Main "HOL-Library.Sublist"
begin

section \<open>Text and worksheet cells\<close>

text \<open>
  The location engine of \<^verbatim>\<open>Logics/create_locations_input.py\<close> works on pandas
  data frames read from worksheets. A cell is either missing (\<^verbatim>\<open>NaN\<close>, for which
  \<^verbatim>\<open>pd.isna\<close> holds) or text; numeric cells are taken by their \<^verbatim>\<open>str()\<close>
  rendering. Text is a list of 8-bit characters read as code points 0..255.
\<close>

datatype cell = NaN | Str string

text \<open>\<^verbatim>\<open>str(x)\<close> and \<^verbatim>\<open>.astype(str)\<close>: a missing value renders as \<^verbatim>\<open>nan\<close>.\<close>

fun py_str :: "cell \<Rightarrow> string" where
  "py_str NaN = ''nan''"
| "py_str (Str s) = s"

fun isna :: "cell \<Rightarrow> bool" where
  "isna NaN = True"
| "isna (Str s) = False"

text \<open>Truthiness of a value in \<^verbatim>\<open>if x\<close>: the float \<^verbatim>\<open>nan\<close> is true, a string is
  true when it is not empty.\<close>

fun truthy :: "cell \<Rightarrow> bool" where
  "truthy NaN = True"
| "truthy (Str s) = (s \<noteq> [])"

text \<open>The characters \<^verbatim>\<open>str.isspace\<close> accepts among the first 256 code points.\<close>

definition is_space :: "char \<Rightarrow> bool" where
  "is_space c = ((of_char c :: nat) \<in> set [9, 10, 11, 12, 13, 28, 29, 30, 31, 32, 133, 160])"

text \<open>The characters the pattern \<^verbatim>\<open>\d\<close> accepts among the first 256 code points.\<close>

definition is_digit :: "char \<Rightarrow> bool" where
  "is_digit c = (48 \<le> (of_char c :: nat) \<and> (of_char c :: nat) \<le> 57)"

definition lower_char :: "char \<Rightarrow> char" where
  "lower_char c =
     (let n = (of_char c :: nat)
      in if (65 \<le> n \<and> n \<le> 90) \<or> (192 \<le> n \<and> n \<le> 222 \<and> n \<noteq> 215)
         then char_of (n + 32) else c)"

definition py_lower :: "string \<Rightarrow> string" where
  "py_lower s = map lower_char s"

definition py_strip :: "string \<Rightarrow> string" where
  "py_strip s = rev (dropWhile is_space (rev (dropWhile is_space s)))"

text \<open>\<^verbatim>\<open>s.split()\<close>: the maximal runs of non-blank characters; the first argument
  is the run being read.\<close>

fun split_ws :: "string \<Rightarrow> string \<Rightarrow> string list" where
  "split_ws w [] = (if w = [] then [] else [w])"
| "split_ws w (c # cs) =
     (if is_space c then (if w = [] then split_ws [] cs else w # split_ws [] cs)
      else split_ws (w @ [c]) cs)"

definition py_split :: "string \<Rightarrow> string list" where
  "py_split s = split_ws [] s"

text \<open>\<^verbatim>\<open>' '.join(parts)\<close>.\<close>

fun join_space :: "string list \<Rightarrow> string" where
  "join_space [] = []"
| "join_space [w] = w"
| "join_space (w # v # ws) = w @ '' '' @ join_space (v # ws)"

text \<open>\<^verbatim>\<open>re.findall(r'\d+', s)\<close>: the maximal digit runs, in order of appearance.\<close>

fun digit_runs :: "string \<Rightarrow> string \<Rightarrow> string list" where
  "digit_runs w [] = (if w = [] then [] else [w])"
| "digit_runs w (c # cs) =
     (if is_digit c then digit_runs (w @ [c]) cs
      else (if w = [] then digit_runs [] cs else w # digit_runs [] cs))"

text \<open>\<^verbatim>\<open>re.sub(r'\d+', '', s)\<close>.\<close>

definition remove_digits :: "string \<Rightarrow> string" where
  "remove_digits s = filter (\<lambda>c. \<not> is_digit c) s"

text \<open>\<^verbatim>\<open>re.sub(r'\.0$', '', s)\<close>: the pattern matches \<^verbatim>\<open>.0\<close> at the very end, or
  just before one final newline.\<close>

definition strip_dot0 :: "string \<Rightarrow> string" where
  "strip_dot0 s =
     (case rev s of
        CHR ''0'' # CHR ''.'' # r \<Rightarrow> rev r
      | CHR 0x0A # CHR ''0'' # CHR ''.'' # r \<Rightarrow> rev r @ [CHR 0x0A]
      | _ \<Rightarrow> s)"

section \<open>Normalizer\<close>

definition normalize_string :: "cell \<Rightarrow> string" where
  "normalize_string s =
     (if isna s \<or> s = Str [] then []
      else join_space (py_split (py_lower (py_strip (py_str s)))))"

definition extract_numbers :: "cell \<Rightarrow> string list" where
  "extract_numbers s =
     (if isna s \<or> s = Str [] then [] else digit_runs [] (py_str s))"

section \<open>Similarity scorer\<close>

text \<open>
  \<^verbatim>\<open>fuzzy_match_score\<close> (the definition at line 1314, which replaces the earlier one of
  the module). \<^verbatim>\<open>SequenceMatcher(None, a, b).ratio()\<close> belongs to Python's standard
  library, not to the repository: the scorer takes it as the parameter \<open>ratio\<close>. The
  ratio is \<open>2 * M / T\<close> for natural numbers \<open>M\<close> and \<open>T\<close>, so it and the threshold are
  rationals; the comparison of the two floats in the source gives the same answer for
  the thresholds 0.7 and 0.8 and texts far shorter than \<open>2 ^ 50\<close> characters.
\<close>

definition fuzzy_match_score ::
    "(string \<Rightarrow> string \<Rightarrow> rat) \<Rightarrow> cell \<Rightarrow> cell \<Rightarrow> rat \<Rightarrow> bool" where
  "fuzzy_match_score ratio str1 str2 threshold =
     (let str1_norm = normalize_string str1;
          str2_norm = normalize_string str2
      in if str1_norm = [] \<or> str2_norm = [] then False
         else
           let numbers1 = extract_numbers str1;
               numbers2 = extract_numbers str2
           in if numbers1 \<noteq> [] \<and> numbers2 \<noteq> [] \<and> numbers1 \<noteq> numbers2 then False
              else
                let str1_no_numbers = join_space (py_split (py_strip (remove_digits str1_norm)));
                    str2_no_numbers = join_space (py_split (py_strip (remove_digits str2_norm)))
                in if str1_no_numbers = [] \<or> str2_no_numbers = [] then str1_norm = str2_norm
                   else if str1_no_numbers = str2_no_numbers then True
                   else ratio str1_no_numbers str2_no_numbers \<ge> threshold)"

section \<open>The ratio of \<^verbatim>\<open>difflib.SequenceMatcher\<close>\<close>

text \<open>
  The theorems below hold for every ratio function. Where a closed instance needs one,
  it is this transcription of \<^verbatim>\<open>SequenceMatcher(None, a, b).ratio()\<close> from Python's
  \<^verbatim>\<open>difflib\<close>: \<^verbatim>\<open>find_longest_match\<close> returns the longest block of equal characters,
  the earliest in \<^verbatim>\<open>a\<close> and then in \<^verbatim>\<open>b\<close> among the longest, and the blocks to its left
  and to its right are found the same way.
\<close>

text \<open>With \<^verbatim>\<open>autojunk\<close> left on, a character of a second sequence of 200 or more
  characters is popular, and dropped from the index \<^verbatim>\<open>b2j\<close>, when it occurs more than
  \<^verbatim>\<open>n // 100 + 1\<close> times.\<close>

definition popular :: "string \<Rightarrow> char \<Rightarrow> bool" where
  "popular b c = (200 \<le> length b \<and> length b div 100 + 1 < count_list b c)"

text \<open>\<^verbatim>\<open>j2len\<close>: the length of the longest run of equal, indexed characters that
  ends at \<^verbatim>\<open>a[i]\<close> and \<^verbatim>\<open>b[j]\<close> inside the window.\<close>

fun run_len :: "string \<Rightarrow> string \<Rightarrow> nat \<Rightarrow> nat \<Rightarrow> nat \<Rightarrow> nat \<Rightarrow> nat" where
  "run_len a b alo blo 0 j = (if a ! 0 = b ! j \<and> \<not> popular b (b ! j) then 1 else 0)"
| "run_len a b alo blo (Suc i) j =
     (if a ! Suc i = b ! j \<and> \<not> popular b (b ! j)
      then (if alo < Suc i \<and> blo < j then run_len a b alo blo i (j - 1) else 0) + 1
      else 0)"

text \<open>One step of the search: a strictly longer run replaces the best block.\<close>

definition best_step :: "string \<Rightarrow> string \<Rightarrow> nat \<Rightarrow> nat \<Rightarrow> nat \<times> nat \<Rightarrow> nat \<times> nat \<times> nat \<Rightarrow> nat \<times> nat \<times> nat" where
  "best_step a b alo blo ij best =
     (case (ij, best) of ((i, j), (besti, bestj, bestsize)) \<Rightarrow>
        let k = run_len a b alo blo i j
        in if bestsize < k then (i + 1 - k, j + 1 - k, k) else (besti, bestj, bestsize))"

text \<open>The two loops that extend the best block over equal characters at each end (no
  character is junk, since \<^verbatim>\<open>isjunk\<close> is \<^verbatim>\<open>None\<close>).\<close>

fun extend_back :: "string \<Rightarrow> string \<Rightarrow> nat \<Rightarrow> nat \<Rightarrow> nat \<Rightarrow> nat \<Rightarrow> nat \<Rightarrow> nat \<times> nat \<times> nat" where
  "extend_back a b alo blo 0 bestj bestsize = (0, bestj, bestsize)"
| "extend_back a b alo blo (Suc i) bestj bestsize =
     (if alo < Suc i \<and> blo < bestj \<and> a ! i = b ! (bestj - 1)
      then extend_back a b alo blo i (bestj - 1) (bestsize + 1)
      else (Suc i, bestj, bestsize))"

function extend_forward :: "string \<Rightarrow> string \<Rightarrow> nat \<Rightarrow> nat \<Rightarrow> nat \<Rightarrow> nat \<Rightarrow> nat \<Rightarrow> nat" where
  "extend_forward a b ahi bhi besti bestj bestsize =
     (if besti + bestsize < ahi \<and> bestj + bestsize < bhi \<and>
         a ! (besti + bestsize) = b ! (bestj + bestsize)
      then extend_forward a b ahi bhi besti bestj (bestsize + 1)
      else bestsize)"
  by pat_completeness auto
termination
  by (relation "measure (\<lambda>(a, b, ahi, bhi, besti, bestj, bestsize). ahi - (besti + bestsize))") auto

declare extend_forward.simps [simp del]

lemma best_step_pair:
  "best_step a b alo blo (i, j) (besti, bestj, bestsize) =
     (if bestsize < run_len a b alo blo i j
      then (i + 1 - run_len a b alo blo i j, j + 1 - run_len a b alo blo i j, run_len a b alo blo i j)
      else (besti, bestj, bestsize))"
  by (simp add: best_step_def Let_def)

definition find_longest_match :: "string \<Rightarrow> string \<Rightarrow> nat \<Rightarrow> nat \<Rightarrow> nat \<Rightarrow> nat \<Rightarrow> nat \<times> nat \<times> nat" where
  "find_longest_match a b alo ahi blo bhi =
     (case fold (best_step a b alo blo)
             (concat (map (\<lambda>i. map (\<lambda>j. (i, j)) [blo..<bhi]) [alo..<ahi])) (alo, blo, 0) of
        (i0, j0, k0) \<Rightarrow>
          (case extend_back a b alo blo i0 j0 k0 of
             (besti, bestj, bestsize) \<Rightarrow>
               (besti, bestj, extend_forward a b ahi bhi besti bestj bestsize)))"

text \<open>The block found lies inside the window of the first sequence; the recursion of
  \<^verbatim>\<open>get_matching_blocks\<close> terminates for that reason.\<close>

lemma run_len_le: "alo \<le> i \<Longrightarrow> run_len a b alo blo i j \<le> i + 1 - alo"
  by (induction i arbitrary: j) (auto simp: Suc_diff_le)

lemma fold_best_bounds:
  assumes "\<forall>(i, j) \<in> set ps. alo \<le> i \<and> i < ahi"
    and "alo \<le> bi \<and> bi + bs \<le> max alo ahi"
    and "fold (best_step a b alo blo) ps (bi, bj, bs) = (i0, j0, k0)"
  shows "alo \<le> i0 \<and> i0 + k0 \<le> max alo ahi"
  using assms
proof (induction ps arbitrary: bi bj bs)
  case Nil
  then show ?case by simp
next
  case (Cons p ps)
  obtain i j where p: "p = (i, j)" by (cases p)
  have ij: "alo \<le> i" "i < ahi" using Cons.prems(1) p by auto
  let ?k = "run_len a b alo blo i j"
  have k: "?k \<le> i + 1 - alo" using run_len_le ij by simp
  show ?case
  proof (cases "bs < ?k")
    case True
    have "fold (best_step a b alo blo) ps (i + 1 - ?k, j + 1 - ?k, ?k) = (i0, j0, k0)"
      using Cons.prems(3) True p by (simp add: best_step_pair)
    moreover have "alo \<le> i + 1 - ?k \<and> i + 1 - ?k + ?k \<le> max alo ahi"
      using k ij by auto
    ultimately show ?thesis using Cons.IH Cons.prems(1) by auto
  next
    case False
    have "fold (best_step a b alo blo) ps (bi, bj, bs) = (i0, j0, k0)"
      using Cons.prems(3) False p by (simp add: best_step_pair)
    then show ?thesis using Cons.IH Cons.prems(1,2) by auto
  qed
qed

lemma extend_back_bounds:
  "extend_back a b alo blo i j k = (i', j', k') \<Longrightarrow> alo \<le> i \<Longrightarrow>
     alo \<le> i' \<and> i' + k' = i + k \<and> k \<le> k'"
proof (induction i arbitrary: j k)
  case 0
  then show ?case by simp
next
  case (Suc i)
  then show ?case by (fastforce split: if_splits)
qed

lemma extend_forward_bounds:
  "i + k \<le> max alo ahi \<Longrightarrow> alo \<le> i \<Longrightarrow>
     i + extend_forward a b ahi bhi i j k \<le> max alo ahi \<and> k \<le> extend_forward a b ahi bhi i j k"
proof (induction a b ahi bhi i j k rule: extend_forward.induct)
  case (1 a b ahi bhi besti bestj bestsize)
  let ?go = "besti + bestsize < ahi \<and> bestj + bestsize < bhi \<and>
         a ! (besti + bestsize) = b ! (bestj + bestsize)"
  show ?case
  proof (cases ?go)
    case True
    then have eq: "extend_forward a b ahi bhi besti bestj bestsize =
        extend_forward a b ahi bhi besti bestj (bestsize + 1)"
      by (subst extend_forward.simps) simp
    have "besti + (bestsize + 1) \<le> max alo ahi" using True by (simp add: max_def)
    from "1.IH"[OF True this "1.prems"(2)] show ?thesis unfolding eq by simp
  next
    case False
    then have "extend_forward a b ahi bhi besti bestj bestsize = bestsize"
      by (subst extend_forward.simps) auto
    with "1.prems" show ?thesis by simp
  qed
qed

lemma find_longest_match_bounds:
  assumes "find_longest_match a b alo ahi blo bhi = (i, j, k)"
  shows "alo \<le> i \<and> i + k \<le> max alo ahi"
proof -
  obtain i0 j0 k0 where f: "fold (best_step a b alo blo)
             (concat (map (\<lambda>i. map (\<lambda>j. (i, j)) [blo..<bhi]) [alo..<ahi])) (alo, blo, 0) = (i0, j0, k0)"
    by (metis prod_cases3)
  obtain i1 j1 k1 where e: "extend_back a b alo blo i0 j0 k0 = (i1, j1, k1)"
    by (metis prod_cases3)
  have r: "i = i1" "j = j1" "k = extend_forward a b ahi bhi i1 j1 k1"
    using assms f e by (auto simp: find_longest_match_def)
  have b0: "alo \<le> i0 \<and> i0 + k0 \<le> max alo ahi"
    by (rule fold_best_bounds[OF _ _ f]) auto
  have b1: "alo \<le> i1 \<and> i1 + k1 = i0 + k0"
    using extend_back_bounds[OF e] b0 by simp
  show ?thesis
    using extend_forward_bounds[of i1 k1 alo ahi a b bhi j1] b0 b1 r by simp
qed

text \<open>\<^verbatim>\<open>get_matching_blocks\<close>: the sizes of the blocks, summed (the order in which
  the queue is served does not change the sum).\<close>

function matching_total :: "string \<Rightarrow> string \<Rightarrow> nat \<Rightarrow> nat \<Rightarrow> nat \<Rightarrow> nat \<Rightarrow> nat" where
  "matching_total a b alo ahi blo bhi =
     (case find_longest_match a b alo ahi blo bhi of
        (i, j, k) \<Rightarrow>
          if k = 0 then 0
          else k + (if alo < i \<and> blo < j then matching_total a b alo i blo j else 0)
                 + (if i + k < ahi \<and> j + k < bhi then matching_total a b (i + k) ahi (j + k) bhi else 0))"
  by pat_completeness auto
termination
proof (relation "measure (\<lambda>(a, b, alo, ahi, blo, bhi). ahi - alo)", goal_cases)
  case 1
  then show ?case by simp
next
  case (2 a b alo ahi blo bhi i y j k)
  then have "find_longest_match a b alo ahi blo bhi = (i, j, k)" by simp
  from find_longest_match_bounds[OF this] 2 show ?case by auto
next
  case (3 a b alo ahi blo bhi i y j k)
  then have "find_longest_match a b alo ahi blo bhi = (i, j, k)" by simp
  from find_longest_match_bounds[OF this] 3 show ?case by auto
qed

text \<open>\<^verbatim>\<open>ratio()\<close>: \<^verbatim>\<open>2.0 * matches / length\<close>, and 1.0 for two empty sequences.\<close>

definition SequenceMatcher_ratio :: "string \<Rightarrow> string \<Rightarrow> rat" where
  "SequenceMatcher_ratio a b =
     (let matches = matching_total a b 0 (length a) 0 (length b);
          length_sum = length a + length b
      in if length_sum \<noteq> 0 then 2 * of_nat matches / of_nat length_sum else 1)"

section \<open>Catalog records and input rows\<close>

text \<open>
  One row of the \<^verbatim>\<open>Locations\<close> sheet of \<^verbatim>\<open>Practice_Locations.xlsx\<close>
  (\<^verbatim>\<open>api_locations_df\<close>). The fields are the columns \<^verbatim>\<open>address_1\<close>, \<^verbatim>\<open>address_2\<close>,
  \<^verbatim>\<open>city\<close>, \<^verbatim>\<open>state\<close>, \<^verbatim>\<open>zip\<close>, \<^verbatim>\<open>location_id\<close>, \<^verbatim>\<open>monolith_location_id\<close>,
  \<^verbatim>\<open>Location Type\<close>, \<^verbatim>\<open>Practice Monolith ID\<close> and \<^verbatim>\<open>Practice Cloud ID\<close>.
\<close>

record catalog_row =
  address_1 :: cell
  address_2 :: cell
  city :: cell
  state :: cell
  zip_code :: cell
  location_id :: cell
  monolith_location_id :: cell
  Location_Type :: cell
  Practice_Monolith_ID :: cell
  Practice_Cloud_ID :: cell

text \<open>A row of \<^verbatim>\<open>Locations_input.xlsx\<close> is a pandas Series: a map from column
  labels to cells. \<^verbatim>\<open>row.get(k, '') if k in row else ''\<close>:\<close>

type_synonym series = "string \<rightharpoonup> cell"

definition row_get :: "series \<Rightarrow> string \<Rightarrow> cell" where
  "row_get locations_row k = (case locations_row k of None \<Rightarrow> Str [] | Some v \<Rightarrow> v)"

text \<open>One entry of a match list: \<^verbatim>\<open>(monolith_id_str, cloud_id, location_type_str,
  practice_monolith_id_str, practice_cloud_id_str)\<close>; the cloud id is the catalog cell as
  it is.\<close>

type_synonym match_tuple = "string \<times> cell \<times> string \<times> string \<times> string"

definition external_id :: "match_tuple \<Rightarrow> cell" where
  "external_id m = fst (snd m)"

section \<open>Address matcher (Cases 3 and 4)\<close>

text \<open>The practice identifiers handed to \<^verbatim>\<open>match_location_by_address\<close>: \<open>None\<close> is
  Python's \<^verbatim>\<open>None\<close>. An identifier that is missing or blank after cleanup counts as
  not given.\<close>

definition clean_practice_id :: "cell option \<Rightarrow> string option" where
  "clean_practice_id practice_id =
     (case practice_id of
        None \<Rightarrow> None
      | Some v \<Rightarrow>
          if isna v then None
          else let practice_id_str = strip_dot0 (py_strip (py_str v))
               in if practice_id_str = [] then None else Some practice_id_str)"

definition monolith_matches :: "string \<Rightarrow> catalog_row \<Rightarrow> bool" where
  "monolith_matches practice_id_str r =
     (strip_dot0 (py_strip (py_str (Practice_Monolith_ID r))) = practice_id_str)"

definition cloud_matches :: "string \<Rightarrow> catalog_row \<Rightarrow> bool" where
  "cloud_matches practice_cloud_id_str r =
     (py_strip (py_str (Practice_Cloud_ID r)) = practice_cloud_id_str)"

definition filter_by_practice ::
    "string option \<Rightarrow> string option \<Rightarrow> catalog_row list \<Rightarrow> catalog_row list" where
  "filter_by_practice practice_id_str practice_cloud_id_str api_locations_df =
     (case (practice_id_str, practice_cloud_id_str) of
        (Some p, Some c) \<Rightarrow>
          filter (\<lambda>r. monolith_matches p r \<or> cloud_matches c r) api_locations_df
      | (Some p, None) \<Rightarrow> filter (monolith_matches p) api_locations_df
      | (None, Some c) \<Rightarrow> filter (cloud_matches c) api_locations_df
      | (None, None) \<Rightarrow> api_locations_df)"

text \<open>Case 4: the candidate's non-blank address parts, joined with single spaces.\<close>

definition address_part :: "cell \<Rightarrow> string list" where
  "address_part v =
     (if truthy v \<and> py_strip (py_str v) \<noteq> [] then [py_strip (py_str v)] else [])"

definition api_address_combined :: "catalog_row \<Rightarrow> string" where
  "api_address_combined api_row =
     join_space (address_part (address_1 api_row) @ address_part (address_2 api_row) @
                 address_part (city api_row) @ address_part (state api_row) @
                 address_part (zip_code api_row))"

fun concat_loop ::
    "(string \<Rightarrow> string \<Rightarrow> rat) \<Rightarrow> string \<Rightarrow> catalog_row list \<Rightarrow> catalog_row list" where
  "concat_loop ratio addr_line1_norm [] = []"
| "concat_loop ratio addr_line1_norm (api_row # rest) =
     (let api_address_combined_norm = normalize_string (Str (api_address_combined api_row))
      in if api_address_combined_norm \<noteq> [] \<and>
            fuzzy_match_score ratio (Str addr_line1_norm) (Str api_address_combined_norm) (7 / 10)
         then api_row # concat_loop ratio addr_line1_norm rest
         else concat_loop ratio addr_line1_norm rest)"

text \<open>Case 3, step 1: Address Line 1 at threshold 0.7.\<close>

fun line1_loop ::
    "(string \<Rightarrow> string \<Rightarrow> rat) \<Rightarrow> string \<Rightarrow> catalog_row list \<Rightarrow> catalog_row list" where
  "line1_loop ratio addr_line1_norm [] = []"
| "line1_loop ratio addr_line1_norm (api_row # rest) =
     (let api_addr1_norm = normalize_string (address_1 api_row)
      in if fuzzy_match_score ratio (Str addr_line1_norm) (Str api_addr1_norm) (7 / 10)
         then api_row # line1_loop ratio addr_line1_norm rest
         else line1_loop ratio addr_line1_norm rest)"

text \<open>Case 3, step 2: the loop that builds \<^verbatim>\<open>filtered_matches\<close> from Address Line 2.\<close>

fun line2_loop ::
    "(string \<Rightarrow> string \<Rightarrow> rat) \<Rightarrow> string \<Rightarrow> catalog_row list \<Rightarrow> catalog_row list" where
  "line2_loop ratio addr_line2_norm [] = []"
| "line2_loop ratio addr_line2_norm (api_row # rest) =
     (let api_addr2_norm = normalize_string (address_2 api_row)
      in if addr_line2_norm = [] then
           (if api_addr2_norm = [] then api_row # line2_loop ratio addr_line2_norm rest
            else line2_loop ratio addr_line2_norm rest)
         else
           (if api_addr2_norm \<noteq> [] then
              (if fuzzy_match_score ratio (Str addr_line2_norm) (Str api_addr2_norm) (7 / 10)
               then api_row # line2_loop ratio addr_line2_norm rest
               else line2_loop ratio addr_line2_norm rest)
            else line2_loop ratio addr_line2_norm rest))"

text \<open>The assignment \<^verbatim>\<open>matches = filtered_matches\<close> is indented into the body of the
  loop: it runs once per iteration, binding \<^verbatim>\<open>matches\<close> to the list that the loop
  keeps appending to, and not at all when the loop has nothing to iterate over.\<close>

definition line2_stage ::
    "(string \<Rightarrow> string \<Rightarrow> rat) \<Rightarrow> string \<Rightarrow> catalog_row list \<Rightarrow> catalog_row list" where
  "line2_stage ratio addr_line2_norm matches =
     (if matches = [] then matches else line2_loop ratio addr_line2_norm matches)"

text \<open>Case 3, steps 3 to 5: one loop per field, at threshold 0.8; the filtered list
  replaces \<^verbatim>\<open>matches\<close> only when it is not empty.\<close>

fun field_loop ::
    "(string \<Rightarrow> string \<Rightarrow> rat) \<Rightarrow> (catalog_row \<Rightarrow> cell) \<Rightarrow> string \<Rightarrow> catalog_row list
      \<Rightarrow> catalog_row list" where
  "field_loop ratio field field_norm [] = []"
| "field_loop ratio field field_norm (api_row # rest) =
     (let api_field_norm = normalize_string (field api_row)
      in if fuzzy_match_score ratio (Str field_norm) (Str api_field_norm) (8 / 10)
         then api_row # field_loop ratio field field_norm rest
         else field_loop ratio field field_norm rest)"

definition field_stage ::
    "(string \<Rightarrow> string \<Rightarrow> rat) \<Rightarrow> (catalog_row \<Rightarrow> cell) \<Rightarrow> string \<Rightarrow> catalog_row list
      \<Rightarrow> catalog_row list" where
  "field_stage ratio field field_norm matches =
     (if field_norm \<noteq> [] then
        (let filtered_matches = field_loop ratio field field_norm matches
         in if filtered_matches \<noteq> [] then filtered_matches else matches)
      else matches)"

definition city_stage where
  "city_stage ratio city_norm matches = field_stage ratio city city_norm matches"

definition state_stage where
  "state_stage ratio state_norm matches = field_stage ratio state state_norm matches"

definition zip_stage where
  "zip_stage ratio zip_norm matches = field_stage ratio zip_code zip_norm matches"

text \<open>The tuples of the result: a candidate contributes one only when both its monolith
  id and its cloud id are present.\<close>

definition blank_or_stripped :: "cell \<Rightarrow> string" where
  "blank_or_stripped v = (if \<not> isna v \<and> v \<noteq> Str [] then py_strip (py_str v) else [])"

fun result_loop :: "catalog_row list \<Rightarrow> match_tuple list" where
  "result_loop [] = []"
| "result_loop (api_row # rest) =
     (let monolith_id = monolith_location_id api_row;
          cloud_id = location_id api_row;
          location_type = Location_Type api_row
      in if \<not> isna monolith_id \<and> \<not> isna cloud_id then
           (strip_dot0 (py_strip (py_str monolith_id)),
            cloud_id,
            (if \<not> isna location_type then py_strip (py_str location_type) else []),
            blank_or_stripped (Practice_Monolith_ID api_row),
            blank_or_stripped (Practice_Cloud_ID api_row)) # result_loop rest
         else result_loop rest)"

text \<open>The candidates that survive the filters of \<^verbatim>\<open>match_location_by_address\<close>.\<close>

definition surviving_matches ::
    "(string \<Rightarrow> string \<Rightarrow> rat) \<Rightarrow> series \<Rightarrow> catalog_row list \<Rightarrow> cell option \<Rightarrow> cell option
      \<Rightarrow> catalog_row list" where
  "surviving_matches ratio locations_row api_locations_df practice_id practice_cloud_id =
     (let filtered_df = filter_by_practice (clean_practice_id practice_id)
                          (clean_practice_id practice_cloud_id) api_locations_df
      in if filtered_df = [] then []
         else
           let addr_line1_norm = normalize_string (row_get locations_row ''Address Line 1'');
               addr_line2_norm = normalize_string (row_get locations_row ''Address Line 2'');
               city_norm = normalize_string (row_get locations_row ''City'');
               state_norm = normalize_string (row_get locations_row ''State'');
               zip_norm = normalize_string (row_get locations_row ''ZIP'')
           in if addr_line1_norm = [] then []
              else if addr_line2_norm = [] \<and> city_norm = [] \<and> state_norm = [] \<and> zip_norm = []
              then concat_loop ratio addr_line1_norm filtered_df
              else
                let matches = line1_loop ratio addr_line1_norm filtered_df
                in if matches = [] then []
                   else zip_stage ratio zip_norm
                          (state_stage ratio state_norm
                            (city_stage ratio city_norm
                              (line2_stage ratio addr_line2_norm matches))))"

definition match_location_by_address ::
    "(string \<Rightarrow> string \<Rightarrow> rat) \<Rightarrow> series \<Rightarrow> catalog_row list \<Rightarrow> cell option \<Rightarrow> cell option
      \<Rightarrow> match_tuple list" where
  "match_location_by_address ratio locations_row api_locations_df practice_id practice_cloud_id =
     result_loop (surviving_matches ratio locations_row api_locations_df practice_id practice_cloud_id)"

section \<open>Data frames\<close>

text \<open>
  \<^verbatim>\<open>locations_df\<close>: the labels of the columns in their order, and the rows, indexed
  from 0 as \<^verbatim>\<open>read_excel\<close> leaves them. Every row has a cell for every label.
\<close>

record dataframe =
  columns :: "string list"
  rows :: "series list"

text \<open>\<^verbatim>\<open>df.at[idx, col]\<close>, read and written; the source reads and writes columns that
  exist only.\<close>

definition at_get :: "dataframe \<Rightarrow> nat \<Rightarrow> string \<Rightarrow> cell" where
  "at_get df idx col = (case (rows df ! idx) col of None \<Rightarrow> NaN | Some v \<Rightarrow> v)"

definition at_set :: "dataframe \<Rightarrow> nat \<Rightarrow> string \<Rightarrow> cell \<Rightarrow> dataframe" where
  "at_set df idx col v = df\<lparr>rows := (rows df)[idx := (rows df ! idx)(col \<mapsto> v)]\<rparr>"

text \<open>\<^verbatim>\<open>df.insert(loc, col, [''] * len(df))\<close>.\<close>

definition df_insert :: "dataframe \<Rightarrow> nat \<Rightarrow> string \<Rightarrow> dataframe" where
  "df_insert df loc col =
     df\<lparr>columns := take loc (columns df) @ [col] @ drop loc (columns df),
        rows := map (\<lambda>r. r(col \<mapsto> Str [])) (rows df)\<rparr>"

text \<open>\<^verbatim>\<open>df.columns.get_loc(col)\<close> for a label that is present once.\<close>

definition get_loc :: "string list \<Rightarrow> string \<Rightarrow> nat" where
  "get_loc cols col = length (takeWhile (\<lambda>c. c \<noteq> col) cols)"

text \<open>\<^verbatim>\<open>s.replace(old, '')\<close> for a non-empty \<^verbatim>\<open>old\<close>.\<close>

function remove_all :: "string \<Rightarrow> string \<Rightarrow> string" where
  "remove_all old s =
     (if s = [] then []
      else if old \<noteq> [] \<and> prefix old s then remove_all old (drop (length old) s)
      else hd s # remove_all old (tl s))"
  by pat_completeness auto
termination
  by (relation "measure (\<lambda>(old, s). length s)") auto

declare remove_all.simps [simp del]

text \<open>\<^verbatim>\<open>s.isdigit()\<close> and \<^verbatim>\<open>int(s)\<close> on decimal digits, and \<^verbatim>\<open>str(n)\<close> as the
  f-strings render a number.\<close>

definition py_isdigit :: "string \<Rightarrow> bool" where
  "py_isdigit s = (s \<noteq> [] \<and> list_all is_digit s)"

definition py_int :: "string \<Rightarrow> nat" where
  "py_int s = foldl (\<lambda>acc c. 10 * acc + (of_char c - 48)) 0 s"

function str_of_nat :: "nat \<Rightarrow> string" where
  "str_of_nat n =
     (if n < 10 then [char_of (48 + n)]
      else str_of_nat (n div 10) @ [char_of (48 + n mod 10)])"
  by pat_completeness auto
termination
  by (relation "measure id") auto

declare str_of_nat.simps [simp del]

text \<open>The number a column label carries after a prefix:
  \<^verbatim>\<open>col.replace(prefix, '').strip()\<close>.\<close>

definition number_str :: "string \<Rightarrow> string \<Rightarrow> string" where
  "number_str pre col = py_strip (remove_all pre col)"

section \<open>Virtual-location backfiller\<close>

text \<open>The catalog rows whose state, as text, normalizes to the row's state.\<close>

definition state_matches :: "string \<Rightarrow> catalog_row \<Rightarrow> bool" where
  "state_matches state_norm r =
     (normalize_string (Str (py_strip (py_str (state r)))) = state_norm)"

definition is_sentinel :: "catalog_row \<Rightarrow> bool" where
  "is_sentinel r = (py_strip (py_str (address_1 r)) = ''--'')"

text \<open>Whether the virtual id already stands in a \<^verbatim>\<open>Location Cloud ID\<close> column of the
  row; the loop runs over the columns the frame has at that moment.\<close>

definition virtual_already_exists :: "dataframe \<Rightarrow> nat \<Rightarrow> string \<Rightarrow> bool" where
  "virtual_already_exists df idx virtual_location_id_str =
     list_ex (\<lambda>col. prefix ''Location Cloud ID'' col \<and>
                     \<not> isna (at_get df idx col) \<and>
                     strip_dot0 (py_strip (py_str (at_get df idx col))) = virtual_location_id_str)
       (columns df)"

text \<open>A cell with a value: present and not blank.\<close>

definition has_value :: "dataframe \<Rightarrow> nat \<Rightarrow> string \<Rightarrow> bool" where
  "has_value df idx col =
     (\<not> isna (at_get df idx col) \<and> py_strip (py_str (at_get df idx col)) \<noteq> [])"

text \<open>The highest number of a \<^verbatim>\<open>Location Cloud ID\<close> column that has a value in the
  row.\<close>

fun max_number_for_row :: "dataframe \<Rightarrow> nat \<Rightarrow> nat \<Rightarrow> string list \<Rightarrow> nat" where
  "max_number_for_row df idx m [] = m"
| "max_number_for_row df idx m (col # cols) =
     (let cell_value = at_get df idx col
      in if \<not> isna cell_value \<and> py_strip (py_str cell_value) \<noteq> [] then
           (if col = ''Location Cloud ID'' then max_number_for_row df idx (max m 1) cols
            else if py_isdigit (number_str ''Location Cloud ID'' col)
                 then max_number_for_row df idx
                        (max m (py_int (number_str ''Location Cloud ID'' col))) cols
                 else max_number_for_row df idx m cols)
         else max_number_for_row df idx m cols)"

definition cloud_col_key :: "string \<Rightarrow> nat" where
  "cloud_col_key x =
     (if py_isdigit (number_str ''Location Cloud ID'' x)
      then py_int (number_str ''Location Cloud ID'' x) else 0)"

text \<open>A column is created, where it does not exist, at the insertion point, which then
  moves on by one.\<close>

definition create_column :: "dataframe \<times> nat \<Rightarrow> string \<Rightarrow> dataframe \<times> nat" where
  "create_column st col =
     (case st of (df, insert_idx) \<Rightarrow>
        if col \<notin> set (columns df) then (df_insert df insert_idx col, insert_idx + 1)
        else (df, insert_idx))"

text \<open>The first half of the body of the loop over the rows: the row is skipped
  (\<open>None\<close>) unless its Location Type is Both or Virtual, its state is not blank, the
  catalog has a sentinel record for the state with an id, and the id is not yet in the
  row; otherwise the id, the monolith id, the location type and the practice cloud id
  of the sentinel, cleaned.\<close>

definition virtual_for_row ::
    "catalog_row list \<Rightarrow> dataframe \<Rightarrow> nat \<Rightarrow> (string \<times> string \<times> string \<times> string) option" where
  "virtual_for_row api_locations_df df idx =
     (let location_type_value = at_get df idx ''Location Type''
      in if isna location_type_value then None
         else
         let location_type_str = py_strip (py_str location_type_value)
         in if location_type_str \<notin> set [''Both'', ''Virtual''] then None
         else
         let state_value = at_get df idx ''State''
         in if isna state_value \<or> py_strip (py_str state_value) = [] then None
         else
         let state_norm = normalize_string (Str (py_strip (py_str state_value)))
         in if state_norm = [] then None
         else
         let virtual_locations =
               filter is_sentinel (filter (state_matches state_norm) api_locations_df)
         in (case virtual_locations of
               [] \<Rightarrow> None
             | virtual_location # _ \<Rightarrow>
                 if isna (location_id virtual_location) then None
                 else
                 let virtual_location_id_str =
                       strip_dot0 (py_strip (py_str (location_id virtual_location)));
                     virtual_monolith_id_str =
                       (if \<not> isna (monolith_location_id virtual_location)
                        then strip_dot0 (py_strip (py_str (monolith_location_id virtual_location)))
                        else []);
                     virtual_location_type_str =
                       (if \<not> isna (Location_Type virtual_location)
                        then py_strip (py_str (Location_Type virtual_location)) else []);
                     virtual_practice_cloud_id_str =
                       blank_or_stripped (Practice_Cloud_ID virtual_location)
                 in if virtual_already_exists df idx virtual_location_id_str then None
                    else Some (virtual_location_id_str, virtual_monolith_id_str,
                               virtual_location_type_str, virtual_practice_cloud_id_str)))"

text \<open>The second half: the new slot number, the four columns of the slot, created where
  missing behind the highest-numbered \<^verbatim>\<open>Location Cloud ID\<close> column, and the four cells
  of the row.\<close>

definition append_virtual ::
    "string list \<Rightarrow> dataframe \<Rightarrow> nat \<Rightarrow> string \<times> string \<times> string \<times> string \<Rightarrow> dataframe" where
  "append_virtual all_location_cloud_id_columns df idx virtual =
     (case virtual of
        (virtual_location_id_str, virtual_monolith_id_str, virtual_location_type_str,
         virtual_practice_cloud_id_str) \<Rightarrow>
          let new_column_number =
                max_number_for_row df idx 0 all_location_cloud_id_columns + 1;
              location_id_col_name = ''Location ID '' @ str_of_nat new_column_number;
              location_cloud_id_col_name =
                ''Location Cloud ID '' @ str_of_nat new_column_number;
              location_type_col_name = ''Location Type '' @ str_of_nat new_column_number;
              practice_cloud_id_col_name =
                ''Practice Cloud ID '' @ str_of_nat new_column_number;
              insert_idx =
                (if all_location_cloud_id_columns \<noteq> []
                 then get_loc (columns df)
                        (last (sort_key cloud_col_key all_location_cloud_id_columns)) + 1
                 else length (columns df));
              df1 = fst (create_column (create_column (create_column (create_column
                      (df, insert_idx) location_id_col_name) location_cloud_id_col_name)
                      practice_cloud_id_col_name) location_type_col_name)
          in at_set (at_set (at_set (at_set df1 idx location_id_col_name
                                        (Str virtual_monolith_id_str))
                                idx location_cloud_id_col_name (Str virtual_location_id_str))
                        idx location_type_col_name (Str virtual_location_type_str))
                idx practice_cloud_id_col_name (Str virtual_practice_cloud_id_str))"

definition virtual_row :: "string list \<Rightarrow> catalog_row list \<Rightarrow> dataframe \<Rightarrow> nat \<Rightarrow> dataframe" where
  "virtual_row all_location_cloud_id_columns api_locations_df df idx =
     (case virtual_for_row api_locations_df df idx of
        None \<Rightarrow> df
      | Some virtual \<Rightarrow> append_virtual all_location_cloud_id_columns df idx virtual)"

text \<open>\<^verbatim>\<open>add_virtual_locations_after_matching\<close>; the catalog sheet is taken with all its
  columns. The list of \<^verbatim>\<open>Location Cloud ID\<close> columns is made once, before the loop.\<close>

definition add_virtual_locations_after_matching ::
    "dataframe \<Rightarrow> catalog_row list \<Rightarrow> dataframe" where
  "add_virtual_locations_after_matching locations_df api_locations_df =
     (if ''Location Type'' \<notin> set (columns locations_df) then locations_df
      else if ''State'' \<notin> set (columns locations_df) then locations_df
      else
        let all_location_cloud_id_columns =
              filter (prefix ''Location Cloud ID'') (columns locations_df);
            has_location_cloud_id_1 =
              (''Location Cloud ID 1'' \<in> set (columns locations_df) \<or>
               ''Location Cloud ID'' \<in> set (columns locations_df))
        in if \<not> (has_location_cloud_id_1 \<or> all_location_cloud_id_columns \<noteq> [])
           then locations_df
           else foldl (virtual_row all_location_cloud_id_columns api_locations_df)
                  locations_df [0..<length (rows locations_df)])"

section \<open>Replacing the address of a matched row\<close>

text \<open>\<^verbatim>\<open>s.zfill(5)\<close>.\<close>

definition zfill5 :: "string \<Rightarrow> string" where
  "zfill5 s = replicate (5 - length s) CHR ''0'' @ s"

definition df_has :: "dataframe \<Rightarrow> string \<Rightarrow> bool" where
  "df_has df col = (col \<in> set (columns df))"

text \<open>One address column: written, when the frame has it, with the stripped text of
  the catalog value, or with the empty text.\<close>

definition replace_field :: "dataframe \<Rightarrow> nat \<Rightarrow> string \<Rightarrow> cell \<Rightarrow> dataframe" where
  "replace_field df row_idx col v =
     (if df_has df col then at_set df row_idx col (Str (blank_or_stripped v)) else df)"

text \<open>The ZIP is written only when the catalog has one; a ZIP of fewer than five
  digits gets its leading zeros back.\<close>

definition replace_zip :: "dataframe \<Rightarrow> nat \<Rightarrow> cell \<Rightarrow> dataframe" where
  "replace_zip df row_idx v =
     (if df_has df ''ZIP'' then
        (if \<not> isna v \<and> v \<noteq> Str [] then
           (let zip_str = py_strip (py_str v)
            in at_set df row_idx ''ZIP''
                 (Str (if py_isdigit zip_str \<and> length zip_str < 5 then zfill5 zip_str
                       else zip_str)))
         else df)
      else df)"

definition replace_address_values_from_matched_location ::
    "dataframe \<Rightarrow> catalog_row list \<Rightarrow> nat \<Rightarrow> cell \<Rightarrow> dataframe" where
  "replace_address_values_from_matched_location locations_df api_locations_df row_idx
       location_cloud_id =
     (if \<not> truthy location_cloud_id \<or> isna location_cloud_id \<or>
         py_strip (py_str location_cloud_id) = [] then locations_df
      else
        let location_cloud_id_str = strip_dot0 (py_strip (py_str location_cloud_id))
        in (case filter (\<lambda>r. strip_dot0 (py_strip (py_str (location_id r))) =
                              location_cloud_id_str) api_locations_df of
              [] \<Rightarrow> locations_df
            | location_row # _ \<Rightarrow>
                replace_zip
                  (replace_field
                    (replace_field
                      (replace_field
                        (replace_field locations_df row_idx ''Address Line 1''
                           (address_1 location_row))
                        row_idx ''Address Line 2'' (address_2 location_row))
                      row_idx ''City'' (city location_row))
                    row_idx ''State'' (state location_row))
                  row_idx (zip_code location_row)))"

section \<open>Strategy selection\<close>

datatype strategy = Case1 | Case2 | Case3 | Case4

definition column_cells :: "dataframe \<Rightarrow> string \<Rightarrow> cell list" where
  "column_cells df col = map (\<lambda>idx. at_get df idx col) [0..<length (rows df)]"

text \<open>\<^verbatim>\<open>non_empty_mask.sum()\<close>: the cells that are present and not blank.\<close>

definition non_empty_count :: "dataframe \<Rightarrow> string \<Rightarrow> nat" where
  "non_empty_count df col =
     length (filter (\<lambda>v. \<not> isna v \<and> py_strip (py_str v) \<noteq> []) (column_cells df col))"

text \<open>The loop over the \<^verbatim>\<open>Location ID\<close> columns: the flag falls at the first column
  with more than 20% of its rows filled (\<^verbatim>\<open>non_empty_count / total_count > 0.2\<close>, for
  counts far below \<open>2 ^ 50\<close>, is \<open>5 * non_empty_count > total_count\<close>).\<close>

fun needs_fuzzy_matching :: "dataframe \<Rightarrow> string list \<Rightarrow> bool" where
  "needs_fuzzy_matching df [] = True"
| "needs_fuzzy_matching df (location_id_col # cols) =
     (let non_empty_count = non_empty_count df location_id_col;
          total_count = length (rows df)
      in if total_count > 0 \<and> 5 * non_empty_count > total_count then False
         else needs_fuzzy_matching df cols)"

text \<open>\<^verbatim>\<open>not col.isna().all() and not (col.astype(str).str.strip() == '').all()\<close>.\<close>

definition has_values :: "dataframe \<Rightarrow> string \<Rightarrow> bool" where
  "has_values df col =
     (\<not> list_all isna (column_cells df col) \<and>
      \<not> list_all (\<lambda>v. py_strip (py_str v) = []) (column_cells df col))"

definition only_state_mapped :: "dataframe \<Rightarrow> bool \<Rightarrow> bool" where
  "only_state_mapped df needs_fuzzy =
     (if df_has df ''State'' \<and> needs_fuzzy then
        (if \<not> has_values df ''State'' then False
         else
           let addr1_has_values = (df_has df ''Address Line 1'' \<and> has_values df ''Address Line 1'');
               addr2_has_values = (df_has df ''Address Line 2'' \<and> has_values df ''Address Line 2'');
               city_has_values = (df_has df ''City'' \<and> has_values df ''City'');
               zip_has_values = (df_has df ''ZIP'' \<and> has_values df ''ZIP'')
           in \<not> addr1_has_values \<and> \<not> addr2_has_values \<and> \<not> city_has_values \<and>
              \<not> zip_has_values)
      else False)"

text \<open>\<^verbatim>\<open>col.isna().all() or (col.astype(str).str.strip() == '').all()\<close>.\<close>

definition column_empty :: "dataframe \<Rightarrow> string \<Rightarrow> bool" where
  "column_empty df col =
     (list_all isna (column_cells df col) \<or>
      list_all (\<lambda>v. py_strip (py_str v) = []) (column_cells df col))"

definition only_line1_dataset :: "dataframe \<Rightarrow> bool" where
  "only_line1_dataset df =
     (let addr1_has_values = (df_has df ''Address Line 1'' \<and> has_values df ''Address Line 1'');
          addr2_empty = (if df_has df ''Address Line 2'' then column_empty df ''Address Line 2''
                         else True);
          city_empty = (if df_has df ''City'' then column_empty df ''City'' else True);
          state_empty = (if df_has df ''State'' then column_empty df ''State'' else True);
          zip_empty = (if df_has df ''ZIP'' then column_empty df ''ZIP'' else True)
      in addr1_has_values \<and> addr2_empty \<and> city_empty \<and> state_empty \<and> zip_empty)"

section \<open>State-only matching (Case 2)\<close>

text \<open>\<^verbatim>\<open>s.split(',')\<close>.\<close>

fun split_comma :: "string \<Rightarrow> string \<Rightarrow> string list" where
  "split_comma w [] = [w]"
| "split_comma w (c # cs) =
     (if c = CHR '','' then w # split_comma [] cs else split_comma (w @ [c]) cs)"

definition state_list_of :: "string \<Rightarrow> string list" where
  "state_list_of state_value_str =
     map py_strip (filter (\<lambda>s. py_strip s \<noteq> []) (split_comma [] state_value_str))"

text \<open>One entry of \<^verbatim>\<open>matches_for_row\<close>.\<close>

record match_info =
  m_location_id :: string
  m_monolith_location_id :: string
  m_location_type :: string
  m_practice_monolith_id :: string
  m_practice_cloud_id :: string

definition match_info_of :: "catalog_row \<Rightarrow> match_info" where
  "match_info_of first_match =
     \<lparr>m_location_id = strip_dot0 (py_strip (py_str (location_id first_match))),
      m_monolith_location_id =
        (if \<not> isna (monolith_location_id first_match)
         then strip_dot0 (py_strip (py_str (monolith_location_id first_match))) else []),
      m_location_type =
        (if \<not> isna (Location_Type first_match)
         then py_strip (py_str (Location_Type first_match)) else []),
      m_practice_monolith_id =
        (if \<not> isna (Practice_Monolith_ID first_match) \<and> Practice_Monolith_ID first_match \<noteq> Str []
         then strip_dot0 (py_strip (py_str (Practice_Monolith_ID first_match))) else []),
      m_practice_cloud_id = blank_or_stripped (Practice_Cloud_ID first_match)\<rparr>"

text \<open>The loop over the states of a row: each state takes the first catalog record of
  that state, when it has an id.\<close>

fun matches_for_row :: "catalog_row list \<Rightarrow> string list \<Rightarrow> match_info list" where
  "matches_for_row api_locations_df [] = []"
| "matches_for_row api_locations_df (state_item # rest) =
     (let state_item_norm = normalize_string (Str state_item)
      in if state_item_norm = [] then matches_for_row api_locations_df rest
         else
           (case filter (state_matches state_item_norm) api_locations_df of
              [] \<Rightarrow> matches_for_row api_locations_df rest
            | first_match # _ \<Rightarrow>
                if \<not> isna (location_id first_match)
                then match_info_of first_match # matches_for_row api_locations_df rest
                else matches_for_row api_locations_df rest))"

text \<open>The sort key of the column labels: \<^verbatim>\<open>int(x.split()[-1])\<close> when the last word is
  a number, and the default otherwise.\<close>

definition last_word_key :: "nat \<Rightarrow> string \<Rightarrow> nat" where
  "last_word_key otherwise x =
     (if py_split x \<noteq> [] \<and> py_isdigit (last (py_split x)) then py_int (last (py_split x))
      else otherwise)"

text \<open>In Case 2 a column that exists moves the insertion point behind itself.\<close>

definition create_or_move :: "dataframe \<times> nat \<Rightarrow> string \<Rightarrow> dataframe \<times> nat" where
  "create_or_move st col =
     (case st of (df, insert_idx) \<Rightarrow>
        if col \<notin> set (columns df) then (df_insert df insert_idx col, insert_idx + 1)
        else (df, get_loc (columns df) col + 1))"

definition first_insert_idx :: "dataframe \<Rightarrow> nat \<Rightarrow> nat" where
  "first_insert_idx df i =
     (if i = 1 then
        (let existing_location_id_cols =
               filter (\<lambda>col. prefix ''Location ID'' col \<and> \<not> prefix ''Location Cloud ID'' col \<and>
                              \<not> prefix ''Location Monolith ID'' col) (columns df)
         in if existing_location_id_cols \<noteq> []
            then get_loc (columns df) (last (sort_key (last_word_key 0) existing_location_id_cols)) + 1
            else length (columns df))
      else
        (let prev_location_type_col = ''Location Type '' @ str_of_nat (i - 1)
         in if df_has df prev_location_type_col
            then get_loc (columns df) prev_location_type_col + 1
            else length (columns df)))"

text \<open>The body of \<^verbatim>\<open>for i, match_info in enumerate(matches_for_row, start=1)\<close>: the five
  columns of slot \<open>i\<close> are created where missing, and the row's cells written; the
  Location Type of the slot is written empty.\<close>

definition populate_slot :: "dataframe \<Rightarrow> nat \<Rightarrow> nat \<Rightarrow> match_info \<Rightarrow> dataframe" where
  "populate_slot df idx i info =
     (let location_monolith_id_col = ''Location Monolith ID '' @ str_of_nat i;
          location_cloud_id_col = ''Location Cloud ID '' @ str_of_nat i;
          location_type_col = ''Location Type '' @ str_of_nat i;
          practice_monolith_id_col = ''Practice Monolith ID '' @ str_of_nat i;
          practice_cloud_id_col = ''Practice Cloud ID '' @ str_of_nat i;
          st4 = create_or_move (create_or_move (create_or_move (create_or_move
                  (df, first_insert_idx df i) location_monolith_id_col) location_cloud_id_col)
                  location_type_col) practice_monolith_id_col;
          df5 = (if practice_cloud_id_col \<notin> set (columns (fst st4))
                 then df_insert (fst st4) (snd st4) practice_cloud_id_col else fst st4)
      in at_set (at_set (at_set (at_set (at_set df5
           idx location_monolith_id_col (Str (m_monolith_location_id info)))
           idx location_cloud_id_col (Str (m_location_id info)))
           idx location_type_col (Str []))
           idx practice_monolith_id_col (Str (m_practice_monolith_id info)))
           idx practice_cloud_id_col (Str (m_practice_cloud_id info)))"

fun populate_slots :: "dataframe \<Rightarrow> nat \<Rightarrow> nat \<Rightarrow> match_info list \<Rightarrow> dataframe" where
  "populate_slots df idx i [] = df"
| "populate_slots df idx i (info # rest) =
     populate_slots (populate_slot df idx i info) idx (i + 1) rest"

text \<open>The body of the loop over the rows in Case 2.\<close>

definition state_only_row :: "catalog_row list \<Rightarrow> dataframe \<Rightarrow> nat \<Rightarrow> dataframe" where
  "state_only_row api_locations_df df idx =
     (let state_value = at_get df idx ''State''
      in if isna state_value \<or> py_strip (py_str state_value) = [] then df
         else
           let state_list = state_list_of (py_strip (py_str state_value))
           in if state_list = [] then df
              else
                let matches = matches_for_row api_locations_df state_list
                in if matches = [] then df
                   else
                     let df1 = populate_slots df idx 1 matches;
                         df2 = (if df_has df1 ''Location Type''
                                then at_set df1 idx ''Location Type'' (Str []) else df1);
                         first_match_cloud_id = m_location_id (hd matches)
                     in if first_match_cloud_id \<noteq> []
                        then replace_address_values_from_matched_location df2 api_locations_df
                               idx (Str first_match_cloud_id)
                        else df2)"

definition state_only_block :: "catalog_row list \<Rightarrow> dataframe \<Rightarrow> dataframe" where
  "state_only_block api_locations_df df =
     foldl (state_only_row api_locations_df) df [0..<length (rows df)]"

section \<open>Direct mapping (Case 1)\<close>

text \<open>The dictionaries keyed by the cleaned monolith location id: the first catalog
  record of an id fills them, when it has a monolith id and a cloud id.\<close>

definition mapped_record :: "catalog_row list \<Rightarrow> string \<Rightarrow> catalog_row option" where
  "mapped_record api_locations_df key =
     find (\<lambda>r. \<not> isna (monolith_location_id r) \<and>
                py_strip (py_str (monolith_location_id r)) \<noteq> [] \<and>
                \<not> isna (location_id r) \<and> truthy (location_id r) \<and>
                strip_dot0 (py_strip (py_str (monolith_location_id r))) = key)
       api_locations_df"

definition slot_col :: "string \<Rightarrow> string \<Rightarrow> string \<Rightarrow> string" where
  "slot_col location_id_col base plain =
     (if location_id_col = ''Location ID'' then plain
      else let number = number_str ''Location ID'' location_id_col
           in if number \<noteq> [] then base @ '' '' @ number else plain)"

definition insert_after :: "dataframe \<Rightarrow> string \<Rightarrow> string \<Rightarrow> dataframe" where
  "insert_after df anchor col =
     (if col \<notin> set (columns df) then df_insert df (get_loc (columns df) anchor + 1) col
      else df)"

text \<open>The body of the loop over the rows for one \<^verbatim>\<open>Location ID\<close> column.\<close>

definition map_row ::
    "catalog_row list \<Rightarrow> string \<Rightarrow> string \<Rightarrow> string \<Rightarrow> string \<Rightarrow> string \<Rightarrow>
      dataframe \<Rightarrow> nat \<Rightarrow> dataframe" where
  "map_row api_locations_df location_id_col cloud_id_col_name practice_cloud_id_col_name
       practice_monolith_id_col_name location_type_col_name df idx =
     (let loc_id = at_get df idx location_id_col
      in if \<not> isna loc_id \<and> py_strip (py_str loc_id) \<noteq> [] then
           (let loc_id_str = strip_dot0 (py_strip (py_str loc_id));
                found = mapped_record api_locations_df loc_id_str;
                cloud_id = (case found of None \<Rightarrow> Str [] | Some r \<Rightarrow> location_id r);
                practice_monolith_id =
                  (case found of None \<Rightarrow> [] | Some r \<Rightarrow> blank_or_stripped (Practice_Monolith_ID r));
                practice_cloud_id =
                  (case found of None \<Rightarrow> [] | Some r \<Rightarrow> blank_or_stripped (Practice_Cloud_ID r));
                location_type =
                  (case found of None \<Rightarrow> []
                   | Some r \<Rightarrow> if \<not> isna (Location_Type r)
                                then py_strip (py_str (Location_Type r)) else [])
            in at_set (at_set (at_set (at_set df
                 idx cloud_id_col_name cloud_id)
                 idx practice_cloud_id_col_name (Str practice_cloud_id))
                 idx practice_monolith_id_col_name (Str practice_monolith_id))
                 idx location_type_col_name (Str location_type))
         else df)"

text \<open>The body of the loop over the \<^verbatim>\<open>Location ID\<close> columns.\<close>

definition map_column :: "catalog_row list \<Rightarrow> dataframe \<Rightarrow> string \<Rightarrow> dataframe" where
  "map_column api_locations_df df location_id_col =
     (let cloud_id_col_name = slot_col location_id_col ''Location Cloud ID'' ''Location Cloud ID'';
          practice_cloud_id_col_name =
            slot_col location_id_col ''Practice Cloud ID'' ''Practice Cloud ID'';
          practice_monolith_id_col_name =
            slot_col location_id_col ''Practice Monolith ID'' ''Practice Monolith ID'';
          location_type_col_name = slot_col location_id_col ''Location Type'' ''Location Type'';
          df1 = insert_after df location_id_col cloud_id_col_name;
          df2 = insert_after df1 cloud_id_col_name location_type_col_name;
          df3 = insert_after df2 location_type_col_name practice_monolith_id_col_name;
          df4 = insert_after df3 practice_monolith_id_col_name practice_cloud_id_col_name
      in foldl (map_row api_locations_df location_id_col cloud_id_col_name
                  practice_cloud_id_col_name practice_monolith_id_col_name location_type_col_name)
           df4 [0..<length (rows df4)])"

text \<open>The address of a row comes from its first \<^verbatim>\<open>Location ID\<close> column whose id is in
  the dictionaries.\<close>

fun first_matched_cloud_id ::
    "catalog_row list \<Rightarrow> dataframe \<Rightarrow> nat \<Rightarrow> string list \<Rightarrow> cell option" where
  "first_matched_cloud_id api_locations_df df idx [] = None"
| "first_matched_cloud_id api_locations_df df idx (location_id_col # cols) =
     (let loc_id = at_get df idx location_id_col
      in if \<not> isna loc_id \<and> py_strip (py_str loc_id) \<noteq> [] then
           (case mapped_record api_locations_df (strip_dot0 (py_strip (py_str loc_id))) of
              Some r \<Rightarrow> Some (location_id r)
            | None \<Rightarrow> first_matched_cloud_id api_locations_df df idx cols)
         else first_matched_cloud_id api_locations_df df idx cols)"

definition replace_from_ids ::
    "catalog_row list \<Rightarrow> string list \<Rightarrow> dataframe \<Rightarrow> nat \<Rightarrow> dataframe" where
  "replace_from_ids api_locations_df location_id_columns df idx =
     (case first_matched_cloud_id api_locations_df df idx location_id_columns of
        None \<Rightarrow> df
      | Some matched_cloud_id \<Rightarrow>
          if truthy matched_cloud_id
          then replace_address_values_from_matched_location df api_locations_df idx matched_cloud_id
          else df)"

text \<open>\<^verbatim>\<open>df.rename(columns=rename_mapping)\<close>, one label at a time (no label of the
  mapping is the new name of another).\<close>

definition rename_col :: "string \<Rightarrow> string \<Rightarrow> dataframe \<Rightarrow> dataframe" where
  "rename_col old new df =
     df\<lparr>columns := map (\<lambda>c. if c = old then new else c) (columns df),
        rows := map (\<lambda>r. case r old of None \<Rightarrow> r | Some v \<Rightarrow> (r(old := None))(new \<mapsto> v))
                  (rows df)\<rparr>"

definition monolith_name :: "string \<Rightarrow> string" where
  "monolith_name location_id_col = slot_col location_id_col ''Location Monolith ID'' ''Location Monolith ID''"

text \<open>The mapping loops of Case 1, and the whole block with its renaming.\<close>

definition direct_mapping :: "catalog_row list \<Rightarrow> string list \<Rightarrow> dataframe \<Rightarrow> dataframe" where
  "direct_mapping api_locations_df location_id_columns df =
     (let df1 = foldl (map_column api_locations_df) df location_id_columns
      in foldl (replace_from_ids api_locations_df location_id_columns) df1
           [0..<length (rows df1)])"

definition direct_block :: "catalog_row list \<Rightarrow> string list \<Rightarrow> dataframe \<Rightarrow> dataframe" where
  "direct_block api_locations_df location_id_columns df =
     foldl (\<lambda>d location_id_col.
              if df_has d location_id_col
              then rename_col location_id_col (monolith_name location_id_col) d else d)
       (direct_mapping api_locations_df location_id_columns df) location_id_columns"

section \<open>Fuzzy matching of the rows (Cases 3 and 4) and the numbered columns\<close>

text \<open>\<^verbatim>\<open>df.drop(columns=[col])\<close> for a column the frame has.\<close>

definition df_drop :: "dataframe \<Rightarrow> string \<Rightarrow> dataframe" where
  "df_drop df col =
     (if df_has df col
      then df\<lparr>columns := filter (\<lambda>c. c \<noteq> col) (columns df),
              rows := map (\<lambda>r. r(col := None)) (rows df)\<rparr>
      else df)"

text \<open>\<^verbatim>\<open>a or b\<close> on the results of \<^verbatim>\<open>row.get\<close>: \<^verbatim>\<open>None\<close> and the empty text are
  false.\<close>

definition py_or :: "cell option \<Rightarrow> cell option \<Rightarrow> cell option" where
  "py_or a b = (case a of None \<Rightarrow> b | Some v \<Rightarrow> if truthy v then Some v else b)"

definition valid_id :: "cell option \<Rightarrow> cell option" where
  "valid_id v =
     (case v of None \<Rightarrow> None
      | Some c \<Rightarrow> if \<not> isna c \<and> py_strip (py_str c) \<noteq> [] then Some c else None)"

definition match_row ::
    "(string \<Rightarrow> string \<Rightarrow> rat) \<Rightarrow> catalog_row list \<Rightarrow> series \<Rightarrow> match_tuple list" where
  "match_row ratio api_locations_df row =
     match_location_by_address ratio row api_locations_df
       (valid_id (py_or (row ''Practice ID'') (row ''Practice Monolith ID'')))
       (valid_id (row ''Practice Cloud ID''))"

text \<open>\<^verbatim>\<open>df[col] = [''] * len(df)\<close> for a missing column: it becomes the last one.\<close>

definition append_column :: "dataframe \<Rightarrow> string \<Rightarrow> dataframe" where
  "append_column df col =
     (if col \<notin> set (columns df) then df_insert df (length (columns df)) col else df)"

definition create_match_columns :: "dataframe \<Rightarrow> nat \<Rightarrow> dataframe" where
  "create_match_columns df match_num =
     append_column (append_column (append_column (append_column (append_column df
       (''Location ID '' @ str_of_nat match_num))
       (''Location Cloud ID '' @ str_of_nat match_num))
       (''Location Type '' @ str_of_nat match_num))
       (''Practice Monolith ID '' @ str_of_nat match_num))
       (''Practice Cloud ID '' @ str_of_nat match_num)"

text \<open>The loop \<^verbatim>\<open>for match_idx in range(len(all_location_ids[idx]))\<close>, with
  \<^verbatim>\<open>col_num = match_idx + 1\<close>.\<close>

fun fill_slots :: "dataframe \<Rightarrow> nat \<Rightarrow> nat \<Rightarrow> match_tuple list \<Rightarrow> dataframe" where
  "fill_slots df idx col_num [] = df"
| "fill_slots df idx col_num ((monolith_id, cloud_id, location_type, practice_monolith_id,
       practice_cloud_id) # rest) =
     fill_slots
       (at_set (at_set (at_set (at_set (at_set df
          idx (''Location ID '' @ str_of_nat col_num) (Str monolith_id))
          idx (''Location Cloud ID '' @ str_of_nat col_num) cloud_id)
          idx (''Location Type '' @ str_of_nat col_num) (Str location_type))
          idx (''Practice Monolith ID '' @ str_of_nat col_num) (Str practice_monolith_id))
          idx (''Practice Cloud ID '' @ str_of_nat col_num) (Str practice_cloud_id))
       idx (col_num + 1) rest"

definition fill_row ::
    "catalog_row list \<Rightarrow> match_tuple list list \<Rightarrow> dataframe \<Rightarrow> nat \<Rightarrow> dataframe" where
  "fill_row api_locations_df all_matches df idx =
     (let matches = all_matches ! idx
      in if matches \<noteq> [] then
           (let df1 = fill_slots df idx 1 matches;
                first_match_cloud_id = external_id (hd matches)
            in if truthy first_match_cloud_id
               then replace_address_values_from_matched_location df1 api_locations_df idx
                      first_match_cloud_id
               else df1)
         else df)"

definition fuzzy_block ::
    "(string \<Rightarrow> string \<Rightarrow> rat) \<Rightarrow> catalog_row list \<Rightarrow> dataframe \<Rightarrow> dataframe" where
  "fuzzy_block ratio api_locations_df locations_df =
     (let df0 = df_drop (df_drop locations_df ''Location ID'') ''Location Cloud ID'';
          all_matches = map (match_row ratio api_locations_df) (rows df0);
          max_matches = foldl max 1 (map length all_matches);
          df1 = foldl create_match_columns df0 [1..<max_matches + 1]
      in foldl (fill_row api_locations_df all_matches) df1 [0..<length (rows df1)])"

section \<open>The primary pass\<close>

text \<open>
  The part of \<^verbatim>\<open>add_location_cloud_ids_to_locations_input\<close> that selects and runs the
  matching: the strategies whose blocks run, in order, and the frame they leave. The
  two reorderings of the columns that follow leave every cell as it is. A frame
  without a \<^verbatim>\<open>Location ID\<close> column, or without an \<^verbatim>\<open>Address Line 1\<close> column when fuzzy
  matching is selected, is returned as it was read.
\<close>

definition primary_pass ::
    "(string \<Rightarrow> string \<Rightarrow> rat) \<Rightarrow> dataframe \<Rightarrow> catalog_row list \<Rightarrow> strategy list \<times> dataframe" where
  "primary_pass ratio locations_df api_locations_df =
     (let location_id_columns = filter (prefix ''Location ID'') (columns locations_df)
      in if location_id_columns = [] then ([], locations_df)
         else
           let needs_fuzzy = needs_fuzzy_matching locations_df location_id_columns;
               only_state = only_state_mapped locations_df needs_fuzzy;
               df1 = (if only_state then state_only_block api_locations_df locations_df
                      else locations_df);
               needs_fuzzy1 = (if only_state then False else needs_fuzzy)
           in if needs_fuzzy1 then
                (let label = (if only_line1_dataset df1 then Case4 else Case3)
                 in if \<not> df_has df1 ''Address Line 1'' then ([label], locations_df)
                    else ([label], fuzzy_block ratio api_locations_df df1))
              else ((if only_state then [Case2] else []) @ [Case1],
                    direct_block api_locations_df location_id_columns df1))"

definition strategies_run ::
    "(string \<Rightarrow> string \<Rightarrow> rat) \<Rightarrow> dataframe \<Rightarrow> catalog_row list \<Rightarrow> strategy list" where
  "strategies_run ratio locations_df api_locations_df =
     fst (primary_pass ratio locations_df api_locations_df)"

section \<open>The scenarios of the specification\<close>

text \<open>The presence rule for Address Line 2 in the words of the specification: an empty
  line 2 of the row goes with an empty line 2 of the candidate only, and a non-empty one
  with a non-empty, similar (0.7) one only.\<close>

definition line2_presence_agrees ::
    "(string \<Rightarrow> string \<Rightarrow> rat) \<Rightarrow> string \<Rightarrow> catalog_row \<Rightarrow> bool" where
  "line2_presence_agrees ratio addr_line2_norm api_row =
     (if addr_line2_norm = [] then normalize_string (address_2 api_row) = []
      else normalize_string (address_2 api_row) \<noteq> [] \<and>
           fuzzy_match_score ratio (Str addr_line2_norm)
             (Str (normalize_string (address_2 api_row))) (7 / 10))"

text \<open>Scenario A: the row, and the catalog record of practice 555 with the fields the
  scenario leaves open as parameters.\<close>

definition scenario_A_row :: series where
  "scenario_A_row =
     [''Address Line 1'' \<mapsto> Str ''165 Broadway, 23rd floor'', ''City'' \<mapsto> Str [],
      ''State'' \<mapsto> Str [], ''ZIP'' \<mapsto> Str [], ''Practice ID'' \<mapsto> Str ''555'']"

definition scenario_A_record :: "cell \<Rightarrow> cell \<Rightarrow> cell \<Rightarrow> catalog_row" where
  "scenario_A_record monolith_id location_type cloud =
     \<lparr>address_1 = Str ''165 Broadway'', address_2 = Str ''23rd Floor'', city = Str ''New York'',
      state = Str ''NY'', zip_code = Str ''10006'', location_id = Str ''loc_1'',
      monolith_location_id = monolith_id, Location_Type = location_type,
      Practice_Monolith_ID = Str ''555'', Practice_Cloud_ID = cloud\<rparr>"

text \<open>The same row with the whole address in its one line.\<close>

definition scenario_A_full_row :: series where
  "scenario_A_full_row =
     scenario_A_row(''Address Line 1'' \<mapsto> Str ''165 Broadway 23rd Floor New York NY 10006'')"

text \<open>Scenario B: line 1, city, state and ZIP agree; only the candidate has a line 2.\<close>

definition scenario_B_row :: series where
  "scenario_B_row =
     [''Address Line 1'' \<mapsto> Str ''4 Century Dr'', ''Address Line 2'' \<mapsto> Str [],
      ''City'' \<mapsto> Str ''Parsippany'', ''State'' \<mapsto> Str ''NJ'', ''ZIP'' \<mapsto> Str ''07054'']"

definition scenario_B_record :: catalog_row where
  "scenario_B_record =
     \<lparr>address_1 = Str ''4 Century Dr'', address_2 = Str ''Ste 100'', city = Str ''Parsippany'',
      state = Str ''NJ'', zip_code = Str ''07054'', location_id = Str ''loc_2'',
      monolith_location_id = Str ''9002'', Location_Type = Str ''In Person'',
      Practice_Monolith_ID = Str ''555'', Practice_Cloud_ID = Str ''pt_1''\<rparr>"

text \<open>The test of the city, state and ZIP stages in the words of the specification:
  similar at threshold 0.8.\<close>

definition similar_field ::
    "(string \<Rightarrow> string \<Rightarrow> rat) \<Rightarrow> (catalog_row \<Rightarrow> cell) \<Rightarrow> string \<Rightarrow> catalog_row \<Rightarrow> bool" where
  "similar_field ratio field field_norm api_row =
     fuzzy_match_score ratio (Str field_norm) (Str (normalize_string (field api_row))) (8 / 10)"

text \<open>The test of \<^verbatim>\<open>match_location_by_address\<close> for its concatenated-address branch:
  the row has nothing but its Address Line 1.\<close>

definition only_address_line1_mapped :: "series \<Rightarrow> bool" where
  "only_address_line1_mapped locations_row =
     (normalize_string (row_get locations_row ''Address Line 2'') = [] \<and>
      normalize_string (row_get locations_row ''City'') = [] \<and>
      normalize_string (row_get locations_row ''State'') = [] \<and>
      normalize_string (row_get locations_row ''ZIP'') = [])"

text \<open>A catalog for scenario B with a second record that has no line 2.\<close>

definition scenario_B_catalog :: "catalog_row list" where
  "scenario_B_catalog =
     [scenario_B_record\<lparr>address_2 := NaN, location_id := Str ''loc_3''\<rparr>, scenario_B_record]"

text \<open>A catalog that carries the external id of scenario A on two records.\<close>

definition scenario_A_twice :: "catalog_row list" where
  "scenario_A_twice =
     [scenario_A_record (Str ''9001'') (Str ''In Person'') (Str ''pt_555''),
      scenario_A_record (Str ''9002'') (Str ''Virtual'') (Str ''pt_555'')]"

section \<open>Frames and catalogs of the examples\<close>

text \<open>Scenario C: a row classified Both in TX with one match, and the catalog's
  sentinel record for TX under a given id.\<close>

definition tx_sentinel :: "string \<Rightarrow> catalog_row" where
  "tx_sentinel ident =
     \<lparr>address_1 = Str ''--'', address_2 = NaN, city = NaN, state = Str ''TX'', zip_code = NaN,
      location_id = Str ident, monolith_location_id = Str ''7001'',
      Location_Type = Str ''Virtual'', Practice_Monolith_ID = Str ''555'',
      Practice_Cloud_ID = Str ''pt_555''\<rparr>"

definition both_tx_frame :: dataframe where
  "both_tx_frame =
     \<lparr>columns = [''State'', ''Location Type'', ''Location Cloud ID 1''],
      rows = [[''State'' \<mapsto> Str ''TX'', ''Location Type'' \<mapsto> Str ''Both'',
               ''Location Cloud ID 1'' \<mapsto> Str ''loc_a'']]\<rparr>"

text \<open>A catalog record with an address in a given state.\<close>

definition office_record :: "string \<Rightarrow> string \<Rightarrow> string \<Rightarrow> string \<Rightarrow> catalog_row" where
  "office_record st ident monolith location_type =
     \<lparr>address_1 = Str ''10 Main St'', address_2 = NaN, city = Str ''Springfield'',
      state = Str st, zip_code = Str ''12207'', location_id = Str ident,
      monolith_location_id = Str monolith, Location_Type = Str location_type,
      Practice_Monolith_ID = Str ''555'', Practice_Cloud_ID = Str ''pt_555''\<rparr>"

definition state_catalog :: "catalog_row list" where
  "state_catalog =
     [office_record ''NY'' ''loc_ny'' ''200'' ''Virtual'',
      office_record ''NY'' ''loc_100'' ''100'' ''In Person'']"

text \<open>A state-only data set of five rows; its first row also carries a location id
  (one row in five: not above 20%), its fourth names its state twice.\<close>

definition state_row :: "string \<Rightarrow> cell \<Rightarrow> series" where
  "state_row st ident =
     [''State'' \<mapsto> Str st, ''Location Type'' \<mapsto> Str ''In Person'', ''Location ID 1'' \<mapsto> ident]"

definition state_frame :: dataframe where
  "state_frame =
     \<lparr>columns = [''State'', ''Location Type'', ''Location ID 1''],
      rows = [state_row ''NY'' (Str ''100''), state_row ''NY'' NaN, state_row ''NY'' NaN,
              state_row ''NY, NY'' NaN, state_row ''NY'' NaN]\<rparr>"

text \<open>A data set with location ids only: one row in five has one; and the data set
  with the same column and no row.\<close>

definition few_ids_frame :: dataframe where
  "few_ids_frame =
     \<lparr>columns = [''Address Line 1'', ''Location ID 1''],
      rows = [[''Address Line 1'' \<mapsto> NaN, ''Location ID 1'' \<mapsto> Str ''100''],
              [''Address Line 1'' \<mapsto> NaN, ''Location ID 1'' \<mapsto> NaN],
              [''Address Line 1'' \<mapsto> NaN, ''Location ID 1'' \<mapsto> NaN],
              [''Address Line 1'' \<mapsto> NaN, ''Location ID 1'' \<mapsto> NaN],
              [''Address Line 1'' \<mapsto> NaN, ''Location ID 1'' \<mapsto> NaN]]\<rparr>"

definition no_rows_frame :: dataframe where
  "no_rows_frame = \<lparr>columns = [''Address Line 1'', ''Location ID 1''], rows = []\<rparr>"

text \<open>A data set of one row with a location id.\<close>

definition one_id_frame :: dataframe where
  "one_id_frame =
     \<lparr>columns = [''Address Line 1'', ''Location ID 1''],
      rows = [[''Address Line 1'' \<mapsto> NaN, ''Location ID 1'' \<mapsto> Str ''100'']]\<rparr>"

text \<open>A Case-1 row whose first sub-column is empty and whose second holds an id.\<close>

definition partial_frame :: dataframe where
  "partial_frame =
     \<lparr>columns = [''State'', ''Location Type'', ''Location ID 1'', ''Location ID 2''],
      rows = [[''State'' \<mapsto> Str ''TX'', ''Location Type'' \<mapsto> Str ''Both'',
               ''Location ID 1'' \<mapsto> NaN, ''Location ID 2'' \<mapsto> Str ''300.0'']]\<rparr>"

definition partial_catalog :: "catalog_row list" where
  "partial_catalog =
     [office_record ''TX'' ''loc_tx'' ''300'' ''In Person'', tx_sentinel ''virt_tx'']"

text \<open>A row with a free second slot.\<close>

definition slot_frame :: dataframe where
  "slot_frame =
     \<lparr>columns = [''State'', ''Location Type'', ''Location Cloud ID 1'', ''Location Cloud ID 2''],
      rows = [[''State'' \<mapsto> Str ''TX'', ''Location Type'' \<mapsto> Str ''Both'',
               ''Location Cloud ID 1'' \<mapsto> Str ''loc_a'', ''Location Cloud ID 2'' \<mapsto> NaN]]\<rparr>"

text \<open>A match list of one tuple, and the matches of the state list \<^verbatim>\<open>NY\<close>.\<close>

definition one_match :: "match_tuple list" where
  "one_match = [(''9001'', Str ''loc_1'', ''In Person'', ''555'', [])]"

definition ny_matches :: "match_info list" where
  "ny_matches = matches_for_row state_catalog [''NY'']"

definition slot_cols :: "string list" where
  "slot_cols = [''Location Cloud ID 1'', ''Location Cloud ID 2'']"

section \<open>Properties of the similarity scorer\<close>

declare matching_total.simps [simp del]

text \<open>
  C2. Numeric-token invariant: when both texts have digit runs and the two sequences of
  runs differ, \<^verbatim>\<open>fuzzy_match_score\<close> is false, for every threshold and whatever the
  ratio of the text comparison would be.
\<close>

theorem numeric_invariant:
  "extract_numbers a \<noteq> [] \<Longrightarrow> extract_numbers b \<noteq> [] \<Longrightarrow>
   extract_numbers a \<noteq> extract_numbers b \<Longrightarrow> \<not> fuzzy_match_score ratio a b t"
  by (simp add: fuzzy_match_score_def Let_def)

theorem numeric_invariant_witness:
  "extract_numbers (Str ''123 Main St'') \<noteq> [] \<and> extract_numbers (Str ''128 Main St'') \<noteq> [] \<and>
   extract_numbers (Str ''123 Main St'') \<noteq> extract_numbers (Str ''128 Main St'') \<and>
   \<not> fuzzy_match_score SequenceMatcher_ratio (Str ''123 Main St'') (Str ''128 Main St'') (1 / 10)"
proof -
  have a: "extract_numbers (Str ''123 Main St'') \<noteq> []" by code_simp
  have b: "extract_numbers (Str ''128 Main St'') \<noteq> []" by code_simp
  have c: "extract_numbers (Str ''123 Main St'') \<noteq> extract_numbers (Str ''128 Main St'')"
    by code_simp
  from numeric_invariant [OF a b c] a b c show ?thesis by blast
qed

text \<open>
  C10. Threshold monotonicity: a pair of texts that is similar at a threshold is similar
  at every lower threshold.
\<close>

theorem threshold_monotone:
  "t' \<le> t \<Longrightarrow> fuzzy_match_score ratio a b t \<Longrightarrow> fuzzy_match_score ratio a b t'"
  by (auto simp: fuzzy_match_score_def Let_def split: if_splits)

theorem threshold_monotone_witness:
  "(1 / 2 :: rat) \<le> 7 / 10 \<and>
   fuzzy_match_score SequenceMatcher_ratio (Str ''Parkway Drive'') (Str ''Parkway Dr'') (7 / 10) \<and>
   fuzzy_match_score SequenceMatcher_ratio (Str ''Parkway Drive'') (Str ''Parkway Dr'') (1 / 2)"
proof -
  have le: "(1 / 2 :: rat) \<le> 7 / 10" by simp
  have hi: "fuzzy_match_score SequenceMatcher_ratio (Str ''Parkway Drive'') (Str ''Parkway Dr'')
              (7 / 10)"
    by code_simp
  from threshold_monotone [OF le hi] le hi show ?thesis by blast
qed

section \<open>Properties of the address matcher\<close>

lemma line2_loop_filter:
  "line2_loop ratio l2 ms = filter (line2_presence_agrees ratio l2) ms"
  by (induction ms) (auto simp: line2_presence_agrees_def Let_def)

lemma field_loop_filter:
  "field_loop ratio f n ms =
     filter (\<lambda>r. fuzzy_match_score ratio (Str n) (Str (normalize_string (f r))) (8 / 10)) ms"
  by (induction ms) (simp_all add: Let_def)

lemma field_stage_nonempty: "ms \<noteq> [] \<Longrightarrow> field_stage ratio f n ms \<noteq> []"
  by (simp add: field_stage_def Let_def)

lemma field_stage_subset: "set (field_stage ratio f n ms) \<subseteq> set ms"
  by (auto simp: field_stage_def Let_def field_loop_filter)

lemma later_stages_subset:
  "set (zip_stage ratio z (state_stage ratio s (city_stage ratio c ms))) \<subseteq> set ms"
  unfolding zip_stage_def state_stage_def city_stage_def
  using field_stage_subset by blast

lemma line2_stage_filter:
  "line2_stage ratio l2 ms = filter (line2_presence_agrees ratio l2) ms"
  by (simp add: line2_stage_def line2_loop_filter)

lemma field_stage_filter:
  "field_stage ratio f n ms =
     (if n \<noteq> [] \<and> filter (similar_field ratio f n) ms \<noteq> []
      then filter (similar_field ratio f n) ms else ms)"
proof -
  have "field_loop ratio f n ms = filter (similar_field ratio f n) ms"
    by (induction ms) (simp_all add: similar_field_def Let_def)
  then show ?thesis by (simp add: field_stage_def Let_def)
qed

lemma surviving_case3:
  assumes "\<not> only_address_line1_mapped row"
  shows "set (surviving_matches ratio row cat p c) \<subseteq>
         set (line2_stage ratio (normalize_string (row_get row ''Address Line 2''))
               (line1_loop ratio (normalize_string (row_get row ''Address Line 1''))
                 (filter_by_practice (clean_practice_id p) (clean_practice_id c) cat)))"
  using assms later_stages_subset
  by (auto simp: surviving_matches_def Let_def only_address_line1_mapped_def)

text \<open>
  C3. Address Line 2 presence: the line-2 stage keeps exactly the candidates that agree
  with the row on the presence of a line 2 (both empty, or both non-empty and similar at
  0.7), also when none is left; no later stage brings a rejected candidate back, so every
  match of a row with separate address fields agrees with it on line 2; and the row of
  scenario B, without a line 2, does not match the candidate with line 2 "Ste 100".
\<close>

theorem line2_presence_exact:
  "line2_stage ratio l2 ms = filter (line2_presence_agrees ratio l2) ms \<and>
   (\<not> only_address_line1_mapped row \<longrightarrow>
      (\<forall>r \<in> set (surviving_matches ratio row cat p c).
         line2_presence_agrees ratio (normalize_string (row_get row ''Address Line 2'')) r)) \<and>
   match_location_by_address ratio scenario_B_row [scenario_B_record] None None = []"
proof (intro conjI impI ballI)
  show "line2_stage ratio l2 ms = filter (line2_presence_agrees ratio l2) ms"
    by (rule line2_stage_filter)
next
  fix r
  assume "\<not> only_address_line1_mapped row" and "r \<in> set (surviving_matches ratio row cat p c)"
  then have "r \<in> set (line2_stage ratio (normalize_string (row_get row ''Address Line 2''))
               (line1_loop ratio (normalize_string (row_get row ''Address Line 1''))
                 (filter_by_practice (clean_practice_id p) (clean_practice_id c) cat)))"
    using surviving_case3 by blast
  then show "line2_presence_agrees ratio (normalize_string (row_get row ''Address Line 2'')) r"
    by (simp add: line2_stage_filter)
next
  show "match_location_by_address ratio scenario_B_row [scenario_B_record] None None = []"
    by code_simp
qed

theorem line2_presence_exact_witness:
  "\<not> only_address_line1_mapped scenario_B_row \<and>
   surviving_matches SequenceMatcher_ratio scenario_B_row scenario_B_catalog None None =
     [scenario_B_record\<lparr>address_2 := NaN, location_id := Str ''loc_3''\<rparr>] \<and>
   line2_presence_agrees SequenceMatcher_ratio
     (normalize_string (row_get scenario_B_row ''Address Line 2''))
     (scenario_B_record\<lparr>address_2 := NaN, location_id := Str ''loc_3''\<rparr>) \<and>
   \<not> line2_presence_agrees SequenceMatcher_ratio
     (normalize_string (row_get scenario_B_row ''Address Line 2'')) scenario_B_record"
proof -
  have a: "\<not> only_address_line1_mapped scenario_B_row" by code_simp
  have b: "surviving_matches SequenceMatcher_ratio scenario_B_row scenario_B_catalog None None =
     [scenario_B_record\<lparr>address_2 := NaN, location_id := Str ''loc_3''\<rparr>]" by code_simp
  have c: "\<not> line2_presence_agrees SequenceMatcher_ratio
     (normalize_string (row_get scenario_B_row ''Address Line 2'')) scenario_B_record" by code_simp
  from line2_presence_exact [of SequenceMatcher_ratio "[]" "[]" scenario_B_row scenario_B_catalog None None]
  have "\<forall>r \<in> set (surviving_matches SequenceMatcher_ratio scenario_B_row scenario_B_catalog None None).
         line2_presence_agrees SequenceMatcher_ratio (normalize_string (row_get scenario_B_row ''Address Line 2'')) r"
    using a by blast
  then show ?thesis using a b c by simp
qed

text \<open>
  C4. Conditional narrowing: the city, state and ZIP stages (threshold 0.8, in that
  order, after the line-2 stage) each replace the candidates by the filtered ones only
  when the row's field is not empty and some candidate passes; otherwise the candidates
  stay as they were. So these stages never empty a non-empty candidate list.
\<close>

theorem conditional_narrowing:
  "city_stage ratio city_norm ms =
     (if city_norm \<noteq> [] \<and> filter (similar_field ratio city city_norm) ms \<noteq> []
      then filter (similar_field ratio city city_norm) ms else ms) \<and>
   state_stage ratio state_norm ms =
     (if state_norm \<noteq> [] \<and> filter (similar_field ratio state state_norm) ms \<noteq> []
      then filter (similar_field ratio state state_norm) ms else ms) \<and>
   zip_stage ratio zip_norm ms =
     (if zip_norm \<noteq> [] \<and> filter (similar_field ratio zip_code zip_norm) ms \<noteq> []
      then filter (similar_field ratio zip_code zip_norm) ms else ms) \<and>
   (ms \<noteq> [] \<longrightarrow>
      zip_stage ratio zip_norm (state_stage ratio state_norm (city_stage ratio city_norm ms)) \<noteq> []) \<and>
   (\<not> only_address_line1_mapped row \<longrightarrow>
    line1_loop ratio (normalize_string (row_get row ''Address Line 1''))
       (filter_by_practice (clean_practice_id p) (clean_practice_id c) cat) \<noteq> [] \<longrightarrow>
      surviving_matches ratio row cat p c =
        zip_stage ratio (normalize_string (row_get row ''ZIP''))
          (state_stage ratio (normalize_string (row_get row ''State''))
            (city_stage ratio (normalize_string (row_get row ''City''))
              (line2_stage ratio (normalize_string (row_get row ''Address Line 2''))
                (line1_loop ratio (normalize_string (row_get row ''Address Line 1''))
                  (filter_by_practice (clean_practice_id p) (clean_practice_id c) cat))))))"
proof (intro conjI impI)
  show "city_stage ratio city_norm ms =
     (if city_norm \<noteq> [] \<and> filter (similar_field ratio city city_norm) ms \<noteq> []
      then filter (similar_field ratio city city_norm) ms else ms)"
    unfolding city_stage_def by (rule field_stage_filter)
  show "state_stage ratio state_norm ms =
     (if state_norm \<noteq> [] \<and> filter (similar_field ratio state state_norm) ms \<noteq> []
      then filter (similar_field ratio state state_norm) ms else ms)"
    unfolding state_stage_def by (rule field_stage_filter)
  show "zip_stage ratio zip_norm ms =
     (if zip_norm \<noteq> [] \<and> filter (similar_field ratio zip_code zip_norm) ms \<noteq> []
      then filter (similar_field ratio zip_code zip_norm) ms else ms)"
    unfolding zip_stage_def by (rule field_stage_filter)
next
  assume "ms \<noteq> []"
  then show "zip_stage ratio zip_norm (state_stage ratio state_norm (city_stage ratio city_norm ms)) \<noteq> []"
    unfolding zip_stage_def state_stage_def city_stage_def
    by (intro field_stage_nonempty)
next
  let ?l1 = "line1_loop ratio (normalize_string (row_get row ''Address Line 1''))
       (filter_by_practice (clean_practice_id p) (clean_practice_id c) cat)"
  assume n4: "\<not> only_address_line1_mapped row" and ne: "?l1 \<noteq> []"
  have l1_empty: "line1_loop ratio [] xs = []" for xs
    by (induction xs) (simp_all add: fuzzy_match_score_def normalize_string_def Let_def)
  have "filter_by_practice (clean_practice_id p) (clean_practice_id c) cat \<noteq> []"
    using ne by auto
  moreover have "normalize_string (row_get row ''Address Line 1'') \<noteq> []"
    using ne l1_empty by metis
  ultimately show "surviving_matches ratio row cat p c =
        zip_stage ratio (normalize_string (row_get row ''ZIP''))
          (state_stage ratio (normalize_string (row_get row ''State''))
            (city_stage ratio (normalize_string (row_get row ''City''))
              (line2_stage ratio (normalize_string (row_get row ''Address Line 2''))
                ?l1)))"
    using n4 ne by (auto simp: surviving_matches_def Let_def only_address_line1_mapped_def)
qed


theorem conditional_narrowing_witness:
  "[scenario_B_record] \<noteq> [] \<and>
   zip_stage SequenceMatcher_ratio ''07054''
     (state_stage SequenceMatcher_ratio ''nj''
       (city_stage SequenceMatcher_ratio ''newark'' [scenario_B_record])) \<noteq> [] \<and>
   city_stage SequenceMatcher_ratio ''newark'' [scenario_B_record] = [scenario_B_record] \<and>
   \<not> only_address_line1_mapped scenario_B_row \<and>
   line1_loop SequenceMatcher_ratio (normalize_string (row_get scenario_B_row ''Address Line 1''))
     (filter_by_practice (clean_practice_id None) (clean_practice_id None) scenario_B_catalog) \<noteq> [] \<and>
   surviving_matches SequenceMatcher_ratio scenario_B_row scenario_B_catalog None None =
     zip_stage SequenceMatcher_ratio (normalize_string (row_get scenario_B_row ''ZIP''))
       (state_stage SequenceMatcher_ratio (normalize_string (row_get scenario_B_row ''State''))
         (city_stage SequenceMatcher_ratio (normalize_string (row_get scenario_B_row ''City''))
           (line2_stage SequenceMatcher_ratio
             (normalize_string (row_get scenario_B_row ''Address Line 2''))
             (line1_loop SequenceMatcher_ratio
               (normalize_string (row_get scenario_B_row ''Address Line 1''))
               (filter_by_practice (clean_practice_id None) (clean_practice_id None)
                 scenario_B_catalog)))))"
proof -
  have ne: "[scenario_B_record] \<noteq> []" by simp
  have c: "city_stage SequenceMatcher_ratio ''newark'' [scenario_B_record] = [scenario_B_record]"
    by code_simp
  have a: "\<not> only_address_line1_mapped scenario_B_row" by code_simp
  have l: "line1_loop SequenceMatcher_ratio
             (normalize_string (row_get scenario_B_row ''Address Line 1''))
             (filter_by_practice (clean_practice_id None) (clean_practice_id None)
               scenario_B_catalog) \<noteq> []"
    by code_simp
  note t = conditional_narrowing [of SequenceMatcher_ratio "''newark''" "[scenario_B_record]"
      "''nj''" "''07054''" scenario_B_row None None scenario_B_catalog]
  from t ne a l c show ?thesis by blast
qed

lemma surviving_subseq: "subseq (surviving_matches ratio row cat p c) cat"
proof -
  have f: "subseq (filter_by_practice a b cat) cat" for a b
    by (simp add: filter_by_practice_def split: option.splits)
  have "\<exists>P. concat_loop ratio n xs = filter P xs" for n xs
    by (rule exI [of _ "\<lambda>r. normalize_string (Str (api_address_combined r)) \<noteq> [] \<and>
          fuzzy_match_score ratio (Str n) (Str (normalize_string (Str (api_address_combined r))))
            (7 / 10)"], induction xs) (simp_all add: Let_def)
  then have c4: "subseq (concat_loop ratio n xs) xs" for n xs
    by (metis subseq_filter_left)
  have "\<exists>P. line1_loop ratio n xs = filter P xs" for n xs
    by (rule exI [of _ "\<lambda>r. fuzzy_match_score ratio (Str n) (Str (normalize_string (address_1 r)))
            (7 / 10)"], induction xs) (simp_all add: Let_def)
  then have l1: "subseq (line1_loop ratio n xs) xs" for n xs
    by (metis subseq_filter_left)
  have l2: "subseq (line2_stage ratio n xs) xs" for n xs
    by (simp add: line2_stage_filter)
  have fs: "subseq (field_stage ratio g n xs) xs" for g n xs
    by (simp add: field_stage_filter)
  have later: "subseq (zip_stage ratio z (state_stage ratio s (city_stage ratio ci xs))) xs"
    for z s ci xs
    unfolding zip_stage_def state_stage_def city_stage_def
    by (meson fs subseq_order.order_trans)
  show ?thesis
    unfolding surviving_matches_def Let_def
    by (auto intro: subseq_order.order_trans [OF c4 f]
        subseq_order.order_trans [OF later subseq_order.order_trans [OF l2 subseq_order.order_trans [OF l1 f]]])
qed

lemma result_loop_external_ids:
  "map external_id (result_loop ms) =
     map location_id (filter (\<lambda>r. \<not> isna (monolith_location_id r) \<and> \<not> isna (location_id r)) ms)"
  by (induction ms) (simp_all add: Let_def external_id_def)

text \<open>
  C1 (as amended). Scenario A: the matcher returns no match for the row whose line is
  "165 Broadway, 23rd floor", whatever the ratio function and the fields of the record
  the scenario leaves open: the digit runs 165, 23 of the row differ from the runs 165,
  23, 10006 of the candidate's concatenated address. The row whose line carries the
  whole address gets the one match with external id loc_1.
\<close>

theorem scenario_A_numeric_rule:
  "match_location_by_address ratio scenario_A_row
     [scenario_A_record monolith_id location_type cloud] (Some (Str ''555'')) None = [] \<and>
   map external_id (match_location_by_address ratio scenario_A_full_row
     [scenario_A_record (Str ''9001'') location_type cloud] (Some (Str ''555'')) None) =
     [Str ''loc_1'']"
proof
  show "match_location_by_address ratio scenario_A_row
     [scenario_A_record monolith_id location_type cloud] (Some (Str ''555'')) None = []"
    by code_simp
  show "map external_id (match_location_by_address ratio scenario_A_full_row
     [scenario_A_record (Str ''9001'') location_type cloud] (Some (Str ''555'')) None) =
     [Str ''loc_1'']"
    by code_simp
qed

theorem scenario_A_counterexample:
  "match_location_by_address SequenceMatcher_ratio scenario_A_row
     [scenario_A_record (Str ''9001'') (Str ''In Person'') (Str ''pt_555'')]
     (Some (Str ''555'')) None = []"
  by code_simp

section \<open>Strategy selection, and the blocks that run\<close>

lemma non_empty_count_le: "non_empty_count df c \<le> length (rows df)"
  by (simp add: non_empty_count_def column_cells_def le_trans [OF length_filter_le])

lemma needs_fuzzy_matching_iff:
  "needs_fuzzy_matching df cols =
     (\<not> (\<exists>c \<in> set cols. 5 * non_empty_count df c > length (rows df)))"
proof (induction cols)
  case Nil
  then show ?case by simp
next
  case (Cons c cols)
  have "(length (rows df) > 0 \<and> 5 * non_empty_count df c > length (rows df)) =
        (5 * non_empty_count df c > length (rows df))"
    using non_empty_count_le [of df c] by linarith
  then have "needs_fuzzy_matching df (c # cols) =
      (if 5 * non_empty_count df c > length (rows df) then False
       else needs_fuzzy_matching df cols)"
    by (simp add: Let_def)
  with Cons.IH show ?case by simp
qed

text \<open>
  C6 (as amended). Strategy selection for Case 1: the direct mapping runs, and runs
  alone, exactly when some \<^verbatim>\<open>Location ID\<close> column has more than 20% of its rows filled.
  A data set whose \<^verbatim>\<open>Location ID\<close> columns are filled in at most 20% of the rows, the
  data set without rows among them, is not handled by Case 1 alone, also when nothing
  else is filled in.
\<close>

theorem case1_selection:
  "strategies_run ratio df api = [Case1] \<longleftrightarrow>
     (\<exists>c \<in> set (filter (prefix ''Location ID'') (columns df)).
        5 * non_empty_count df c > length (rows df))"
proof -
  let ?cols = "filter (prefix ''Location ID'') (columns df)"
  show ?thesis
  proof (cases "?cols = []")
    case True
    then show ?thesis by (simp add: strategies_run_def primary_pass_def)
  next
    case False
    show ?thesis
    proof (cases "needs_fuzzy_matching df ?cols")
      case True
      then have "strategies_run ratio df api \<noteq> [Case1]"
        using False by (auto simp: strategies_run_def primary_pass_def Let_def)
      then show ?thesis using True by (simp add: needs_fuzzy_matching_iff)
    next
      case nf: False
      then have "strategies_run ratio df api = [Case1]"
        using False by (simp add: strategies_run_def primary_pass_def Let_def only_state_mapped_def)
      moreover have "\<exists>c \<in> set ?cols. 5 * non_empty_count df c > length (rows df)"
        using nf needs_fuzzy_matching_iff [of df ?cols] by blast
      ultimately show ?thesis by blast
    qed
  qed
qed

theorem case1_selection_witness:
  "(\<exists>c \<in> set (filter (prefix ''Location ID'') (columns one_id_frame)).
      5 * non_empty_count one_id_frame c > length (rows one_id_frame)) \<and>
   strategies_run SequenceMatcher_ratio one_id_frame state_catalog = [Case1]"
proof -
  have c: "''Location ID 1'' \<in> set (filter (prefix ''Location ID'') (columns one_id_frame))"
    by code_simp
  have n: "5 * non_empty_count one_id_frame ''Location ID 1'' > length (rows one_id_frame)"
    by code_simp
  from c n have e: "\<exists>c \<in> set (filter (prefix ''Location ID'') (columns one_id_frame)).
      5 * non_empty_count one_id_frame c > length (rows one_id_frame)" by blast
  with case1_selection [of SequenceMatcher_ratio one_id_frame state_catalog] show ?thesis by blast
qed

theorem few_ids_not_case1:
  "strategies_run SequenceMatcher_ratio few_ids_frame state_catalog = [Case3] \<and>
   strategies_run SequenceMatcher_ratio no_rows_frame state_catalog = [Case3]"
  by code_simp

text \<open>
  C9. The rows of a state-only data set: the block of Case 2 writes the Location Type
  of the slot empty, and the block of Case 1, which runs after it, writes the catalog's
  Location Type of the row's location id into the same slot.
\<close>

theorem state_only_location_type_overwritten:
  "strategies_run SequenceMatcher_ratio state_frame state_catalog = [Case2, Case1] \<and>
   at_get (state_only_block state_catalog state_frame) 0 ''Location Type 1'' = Str [] \<and>
   at_get (snd (primary_pass SequenceMatcher_ratio state_frame state_catalog)) 0
     ''Location Type 1'' = Str ''In Person''"
  by code_simp

text \<open>
  C8. The backfiller run twice: for a sentinel whose id is \<^verbatim>\<open>virt_tx.0.0\<close> the first
  run appends the cleaned id \<^verbatim>\<open>virt_tx.0\<close> as slot 2, and the second run, which cleans
  the stored id once more before comparing, appends it again as slot 3.
\<close>

theorem backfiller_twice_appends:
  "at_get (add_virtual_locations_after_matching both_tx_frame [tx_sentinel ''virt_tx.0.0''])
     0 ''Location Cloud ID 2'' = Str ''virt_tx.0'' \<and>
   ''Location Cloud ID 3'' \<notin> set (columns
     (add_virtual_locations_after_matching both_tx_frame [tx_sentinel ''virt_tx.0.0''])) \<and>
   at_get (add_virtual_locations_after_matching
            (add_virtual_locations_after_matching both_tx_frame [tx_sentinel ''virt_tx.0.0''])
            [tx_sentinel ''virt_tx.0.0''])
     0 ''Location Cloud ID 3'' = Str ''virt_tx.0''"
  by code_simp


section \<open>Slots\<close>

lemma rows_at_set [simp]: "length (rows (at_set df i c v)) = length (rows df)"
  by (simp add: at_set_def)

lemma columns_at_set [simp]: "columns (at_set df i c v) = columns df"
  by (simp add: at_set_def)

lemma rows_df_insert [simp]: "length (rows (df_insert df loc c)) = length (rows df)"
  by (simp add: df_insert_def)

lemma at_get_at_set:
  "at_get (at_set df i c v) i' c' =
     (if i = i' \<and> c = c' \<and> i < length (rows df) then v else at_get df i' c')"
  by (cases "i = i'"; cases "i < length (rows df)")
     (auto simp: at_get_def at_set_def list_update_beyond)

lemma at_get_df_insert:
  "i < length (rows df) \<Longrightarrow>
   at_get (df_insert df loc c) i c' = (if c' = c then Str [] else at_get df i c')"
  by (cases "c' = c") (simp_all add: at_get_def df_insert_def)

lemma py_int_snoc: "py_int (xs @ [c]) = 10 * py_int xs + (of_char c - 48)"
  by (simp add: py_int_def)

lemma digit_value: "(k::nat) < 10 \<Longrightarrow> (of_char (char_of (48 + k) :: char) :: nat) - 48 = k"
  by (simp add: of_char_of)

lemma str_of_nat_roundtrip: "py_int (str_of_nat n) = n"
proof (induction n rule: str_of_nat.induct)
  case (1 n)
  show ?case
  proof (cases "n < 10")
    case True
    then show ?thesis
      by (subst str_of_nat.simps) (simp add: py_int_def digit_value)
  next
    case False
    then have "py_int (str_of_nat n) = 10 * py_int (str_of_nat (n div 10)) + n mod 10"
      by (subst str_of_nat.simps) (simp add: py_int_snoc digit_value)
    with 1 False show ?thesis by simp
  qed
qed

lemma str_of_nat_inj: "str_of_nat m = str_of_nat n \<Longrightarrow> m = n"
  by (metis str_of_nat_roundtrip)

lemma is_digit_char: "(k::nat) < 10 \<Longrightarrow> is_digit (char_of (48 + k))"
  by (simp add: is_digit_def of_char_of)

lemma str_of_nat_digits: "str_of_nat n \<noteq> [] \<and> list_all is_digit (str_of_nat n)"
proof (induction n rule: str_of_nat.induct)
  case (1 n)
  show ?case
  proof (cases "n < 10")
    case True
    then show ?thesis by (subst str_of_nat.simps, subst (2) str_of_nat.simps) (simp add: is_digit_char)
  next
    case False
    with 1 show ?thesis
      by (subst str_of_nat.simps, subst (2) str_of_nat.simps) (simp add: is_digit_char)
  qed
qed


lemma fill_slots_rows [simp]: "length (rows (fill_slots df idx n ms)) = length (rows df)"
  by (induction df idx n ms rule: fill_slots.induct) simp_all

lemma fill_slots_below:
  "k < n \<Longrightarrow>
   at_get (fill_slots df idx n ms) i (''Location Cloud ID '' @ str_of_nat k) =
   at_get df i (''Location Cloud ID '' @ str_of_nat k)"
  by (induction df idx n ms rule: fill_slots.induct)
     (auto simp: at_get_at_set dest: str_of_nat_inj)

lemma fill_slots_cell:
  "idx < length (rows df) \<Longrightarrow> i < length ms \<Longrightarrow>
   at_get (fill_slots df idx n ms) idx (''Location Cloud ID '' @ str_of_nat (n + i)) =
   external_id (ms ! i)"
proof (induction df idx n ms arbitrary: i rule: fill_slots.induct)
  case (1 df idx col_num)
  then show ?case by simp
next
  case (2 df idx col_num monolith_id cloud_id location_type practice_monolith_id
      practice_cloud_id rest)
  show ?case
  proof (cases i)
    case 0
    have "at_get (fill_slots D idx (col_num + 1) rest) idx
            (''Location Cloud ID '' @ str_of_nat col_num) =
          at_get D idx (''Location Cloud ID '' @ str_of_nat col_num)" for D
      by (rule fill_slots_below) simp
    then show ?thesis
      using 0 "2.prems" by (simp add: at_get_at_set external_id_def)
  next
    case (Suc j)
    then have "j < length rest" using "2.prems" by simp
    from "2.IH" [OF _ this] "2.prems" Suc show ?thesis by simp
  qed
qed

lemma create_or_move_rows [simp]:
  "length (rows (fst (create_or_move st col))) = length (rows (fst st))"
  by (cases st) (simp add: create_or_move_def)

lemma create_or_move_get:
  "c \<noteq> col \<Longrightarrow> i < length (rows (fst st)) \<Longrightarrow>
   at_get (fst (create_or_move st col)) i c = at_get (fst st) i c"
  by (cases st) (simp add: create_or_move_def at_get_df_insert)

lemma populate_slot_rows [simp]:
  "length (rows (populate_slot df idx n info)) = length (rows df)"
  by (simp add: populate_slot_def Let_def)

lemma populate_slot_other:
  assumes "i < length (rows df)"
    and "c \<noteq> ''Location Monolith ID '' @ str_of_nat n"
    and "c \<noteq> ''Location Cloud ID '' @ str_of_nat n"
    and "c \<noteq> ''Location Type '' @ str_of_nat n"
    and "c \<noteq> ''Practice Monolith ID '' @ str_of_nat n"
    and "c \<noteq> ''Practice Cloud ID '' @ str_of_nat n"
  shows "at_get (populate_slot df idx n info) i c = at_get df i c"
  using assms
  by (simp add: populate_slot_def Let_def at_get_at_set create_or_move_get at_get_df_insert)

lemma populate_slot_cloud:
  "idx < length (rows df) \<Longrightarrow>
   at_get (populate_slot df idx n info) idx (''Location Cloud ID '' @ str_of_nat n) =
   Str (m_location_id info)"
  by (simp add: populate_slot_def Let_def at_get_at_set)

lemma populate_slot_type:
  "idx < length (rows df) \<Longrightarrow>
   at_get (populate_slot df idx n info) idx (''Location Type '' @ str_of_nat n) = Str []"
  by (simp add: populate_slot_def Let_def at_get_at_set)

lemma populate_slots_rows [simp]:
  "length (rows (populate_slots df idx n ms)) = length (rows df)"
  by (induction df idx n ms rule: populate_slots.induct) simp_all

lemma populate_slots_below:
  "k < n \<Longrightarrow> i < length (rows df) \<Longrightarrow>
   at_get (populate_slots df idx n ms) i (''Location Cloud ID '' @ str_of_nat k) =
     at_get df i (''Location Cloud ID '' @ str_of_nat k) \<and>
   at_get (populate_slots df idx n ms) i (''Location Type '' @ str_of_nat k) =
     at_get df i (''Location Type '' @ str_of_nat k)"
proof (induction df idx n ms rule: populate_slots.induct)
  case (1 df idx i)
  then show ?case by simp
next
  case (2 df idx n info rest)
  have ne: "str_of_nat k \<noteq> str_of_nat n" using "2.prems"(1) str_of_nat_inj by blast
  have "at_get (populate_slot df idx n info) i (''Location Cloud ID '' @ str_of_nat k) =
          at_get df i (''Location Cloud ID '' @ str_of_nat k)"
    using "2.prems"(2) ne by (intro populate_slot_other) simp_all
  moreover have "at_get (populate_slot df idx n info) i (''Location Type '' @ str_of_nat k) =
          at_get df i (''Location Type '' @ str_of_nat k)"
    using "2.prems"(2) ne by (intro populate_slot_other) simp_all
  ultimately show ?case using "2.IH" "2.prems" by simp
qed

lemma populate_slots_cell:
  "idx < length (rows df) \<Longrightarrow> i < length ms \<Longrightarrow>
   at_get (populate_slots df idx n ms) idx (''Location Cloud ID '' @ str_of_nat (n + i)) =
     Str (m_location_id (ms ! i)) \<and>
   at_get (populate_slots df idx n ms) idx (''Location Type '' @ str_of_nat (n + i)) = Str []"
proof (induction df idx n ms arbitrary: i rule: populate_slots.induct)
  case (1 df idx n)
  then show ?case by simp
next
  case (2 df idx n info rest)
  show ?case
  proof (cases i)
    case 0
    have "idx < length (rows (populate_slot df idx n info))" using "2.prems" by simp
    from populate_slots_below [OF _ this, of n "n + 1" idx rest]
    show ?thesis
      using 0 "2.prems" populate_slot_cloud [of idx df n info] populate_slot_type [of idx df n info]
      by simp
  next
    case (Suc j)
    then have "j < length rest" using "2.prems" by simp
    from "2.IH" [OF _ this] "2.prems" Suc show ?thesis by simp
  qed
qed


lemma create_column_rows [simp]:
  "length (rows (fst (create_column st col))) = length (rows (fst st))"
  by (cases st) (simp add: create_column_def)

lemma columns_df_insert: "set (columns (df_insert df loc c)) = insert c (set (columns df))"
proof -
  have "set (take loc (columns df)) \<union> set (drop loc (columns df)) = set (columns df)"
    by (metis append_take_drop_id set_append)
  then show ?thesis by (auto simp: df_insert_def)
qed

lemma create_column_columns:
  "c \<in> set (columns (fst st)) \<Longrightarrow> c \<in> set (columns (fst (create_column st col)))"
  by (cases st) (simp add: create_column_def columns_df_insert)

lemma create_column_get:
  "c \<in> set (columns (fst st)) \<or> c \<noteq> col \<Longrightarrow> i < length (rows (fst st)) \<Longrightarrow>
   at_get (fst (create_column st col)) i c = at_get (fst st) i c"
  by (cases st) (auto simp: create_column_def at_get_df_insert)

lemma append_virtual_rows [simp]:
  "length (rows (append_virtual cols df idx v)) = length (rows df)"
  by (cases v) (simp add: append_virtual_def Let_def)

lemma append_virtual_cloud:
  "idx < length (rows df) \<Longrightarrow>
   at_get (append_virtual cols df idx (vid, vmono, vty, vpc)) idx
     (''Location Cloud ID '' @ str_of_nat (max_number_for_row df idx 0 cols + 1)) = Str vid"
  by (simp add: append_virtual_def Let_def at_get_at_set)

lemma append_virtual_existing:
  assumes "i < length (rows df)" and "c \<in> set (columns df)"
    and "i \<noteq> idx \<or>
         (c \<noteq> ''Location ID '' @ str_of_nat (max_number_for_row df idx 0 cols + 1) \<and>
          c \<noteq> ''Location Cloud ID '' @ str_of_nat (max_number_for_row df idx 0 cols + 1) \<and>
          c \<noteq> ''Location Type '' @ str_of_nat (max_number_for_row df idx 0 cols + 1) \<and>
          c \<noteq> ''Practice Cloud ID '' @ str_of_nat (max_number_for_row df idx 0 cols + 1))"
  shows "at_get (append_virtual cols df idx v) i c = at_get df i c"
proof -
  obtain vid vmono vty vpc where v: "v = (vid, vmono, vty, vpc)" by (cases v)
  have keep: "at_get (fst (create_column (create_column (create_column (create_column
                 (df, k) c1) c2) c3) c4)) i c = at_get df i c" for k c1 c2 c3 c4
    using assms(1,2) by (simp add: create_column_get create_column_columns)
  show ?thesis
    using assms(3) unfolding v append_virtual_def Let_def
    by (auto simp: at_get_at_set keep)
qed

lemma max_number_ge: "m \<le> max_number_for_row df idx m cols"
proof (induction cols arbitrary: m)
  case Nil
  then show ?case by simp
next
  case (Cons c cols)
  have "m \<le> max_number_for_row df idx m cols"
       "m \<le> max_number_for_row df idx (max m 1) cols"
       "m \<le> max_number_for_row df idx (max m k) cols" for k
    using Cons [of m] Cons [of "max m 1"] Cons [of "max m k"] by linarith+
  then show ?case by (simp add: Let_def)
qed

lemma max_number_bound:
  "col \<in> set cols \<Longrightarrow> has_value df idx col \<Longrightarrow> col \<noteq> ''Location Cloud ID'' \<Longrightarrow>
   py_isdigit (number_str ''Location Cloud ID'' col) \<Longrightarrow>
   py_int (number_str ''Location Cloud ID'' col) \<le> max_number_for_row df idx m cols"
proof (induction cols arbitrary: m)
  case Nil
  then show ?case by simp
next
  case (Cons c cols)
  show ?case
  proof (cases "col = c")
    case True
    have "py_int (number_str ''Location Cloud ID'' col)
            \<le> max_number_for_row df idx (max m (py_int (number_str ''Location Cloud ID'' col))) cols"
      using max_number_ge [of "max m (py_int (number_str ''Location Cloud ID'' col))" df idx cols]
      by linarith
    then show ?thesis using True Cons.prems by (simp add: Let_def has_value_def)
  next
    case False
    then have "col \<in> set cols" using Cons.prems(1) by simp
    from Cons.IH [OF this Cons.prems(2,3,4)] show ?thesis by (simp add: Let_def)
  qed
qed

lemma remove_all_prefix:
  "old \<noteq> [] \<Longrightarrow> remove_all old (old @ t) = remove_all old t"
  by (subst remove_all.simps) simp

lemma remove_all_none:
  "old \<noteq> [] \<Longrightarrow> hd old \<notin> set t \<Longrightarrow> remove_all old t = t"
proof (induction t)
  case Nil
  then show ?case by (subst remove_all.simps) simp
next
  case (Cons c t)
  have "\<not> prefix old (c # t)"
    using Cons.prems by (cases old) (auto simp: prefix_def)
  then show ?case using Cons by (subst remove_all.simps) simp
qed

lemma digit_not_space: "is_digit c \<Longrightarrow> \<not> is_space c"
  by (auto simp: is_digit_def is_space_def)

lemma strip_space_digits:
  assumes "ds \<noteq> []" and "list_all is_digit ds"
  shows "py_strip (CHR '' '' # ds) = ds"
proof -
  have sp: "is_space CHR '' ''" by (simp add: is_space_def)
  have h: "\<not> is_space (hd ds)" and l: "\<not> is_space (last ds)"
    using assms digit_not_space by (auto simp: list_all_iff)
  have "dropWhile is_space ds = ds" using assms(1) h by (cases ds) auto
  moreover have "dropWhile is_space (rev ds) = rev ds"
    using assms(1) l by (cases "rev ds") (auto simp: hd_rev)
  ultimately show ?thesis by (simp add: py_strip_def sp)
qed

lemma number_of_cloud_col:
  "number_str ''Location Cloud ID'' (''Location Cloud ID '' @ str_of_nat n) = str_of_nat n"
proof -
  have d: "str_of_nat n \<noteq> []" "list_all is_digit (str_of_nat n)"
    using str_of_nat_digits by auto
  have "CHR ''L'' \<notin> set (CHR '' '' # str_of_nat n)"
    using d(2) by (auto simp: list_all_iff is_digit_def)
  then have "remove_all ''Location Cloud ID'' (CHR '' '' # str_of_nat n) = CHR '' '' # str_of_nat n"
    by (intro remove_all_none) simp_all
  moreover have "remove_all ''Location Cloud ID'' (''Location Cloud ID'' @ CHR '' '' # str_of_nat n)
      = remove_all ''Location Cloud ID'' (CHR '' '' # str_of_nat n)"
    by (rule remove_all_prefix) simp
  ultimately show ?thesis
    using strip_space_digits [OF d] by (simp add: number_str_def)
qed

lemma new_slot_free:
  assumes "''Location Cloud ID '' @ str_of_nat (max_number_for_row df idx 0 cols + 1) \<in> set cols"
  shows "\<not> has_value df idx
           (''Location Cloud ID '' @ str_of_nat (max_number_for_row df idx 0 cols + 1))"
proof
  let ?n = "max_number_for_row df idx 0 cols + 1"
  let ?c = "''Location Cloud ID '' @ str_of_nat ?n"
  assume hv: "has_value df idx ?c"
  have dig: "py_isdigit (number_str ''Location Cloud ID'' ?c)"
    using str_of_nat_digits [of ?n] by (simp only: number_of_cloud_col py_isdigit_def) simp
  have "py_int (number_str ''Location Cloud ID'' ?c) \<le> max_number_for_row df idx 0 cols"
    by (rule max_number_bound [OF assms hv _ dig]) simp
  then show False by (simp only: number_of_cloud_col str_of_nat_roundtrip)
qed


lemma matches_for_row_append:
  "matches_for_row api (xs @ ys) = matches_for_row api xs @ matches_for_row api ys"
  by (induction xs) (simp_all add: Let_def split: list.splits)

lemma matches_for_row_length: "length (matches_for_row api xs) \<le> length xs"
  by (induction xs) (auto simp: Let_def split: list.splits)

text \<open>
  C5 (as amended). The match list keeps the order of discovery and keeps duplicates:
  the surviving candidates are a subsequence of the catalog, every surviving candidate
  with both ids contributes its tuple, in that order (Cases 3 and 4); the states of a
  row are handled one after the other, each on its own, so a state named twice gives
  its entry twice (Case 2). No step removes an entry whose external id is already in
  the list.
\<close>

theorem match_list_order:
  "subseq (surviving_matches ratio row cat p c) cat \<and>
   map external_id (match_location_by_address ratio row cat p c) =
     map location_id
       (filter (\<lambda>r. \<not> isna (monolith_location_id r) \<and> \<not> isna (location_id r))
          (surviving_matches ratio row cat p c)) \<and>
   matches_for_row api (xs @ ys) = matches_for_row api xs @ matches_for_row api ys \<and>
   length (matches_for_row api xs) \<le> length xs"
  by (simp add: surviving_subseq result_loop_external_ids match_location_by_address_def
      matches_for_row_append matches_for_row_length)

theorem duplicate_external_ids:
  "map external_id (match_location_by_address SequenceMatcher_ratio scenario_A_full_row
     scenario_A_twice (Some (Str ''555'')) None) = [Str ''loc_1'', Str ''loc_1''] \<and>
   map m_location_id (matches_for_row state_catalog (state_list_of ''NY, NY'')) =
     [''loc_ny'', ''loc_ny'']"
  by code_simp

text \<open>
  C7 (as amended). Slots of the rows of Cases 2, 3 and 4, and of the backfiller: the
  \<open>i\<close>-th match of a row is written to slot \<open>i + 1\<close>, so the slots of a row with \<open>k\<close>
  matches are 1, ..., \<open>k\<close>; the backfiller writes its virtual match to the slot whose
  number is the highest number of a \<^verbatim>\<open>Location Cloud ID\<close> column with a value in the row,
  plus one, which is above every such number, in a column that had no value in the row,
  and it leaves every other existing cell of the frame as it was.
\<close>

theorem slot_numbering:
  "(idx < length (rows df) \<longrightarrow> i < length ms \<longrightarrow>
      at_get (fill_slots df idx 1 ms) idx (''Location Cloud ID '' @ str_of_nat (i + 1)) =
      external_id (ms ! i)) \<and>
   (idx < length (rows df) \<longrightarrow> i < length infos \<longrightarrow>
      at_get (populate_slots df idx 1 infos) idx (''Location Cloud ID '' @ str_of_nat (i + 1)) =
      Str (m_location_id (infos ! i))) \<and>
   (idx < length (rows df) \<longrightarrow> virtual_for_row api df idx = Some (vid, vmono, vty, vpc) \<longrightarrow>
      at_get (virtual_row cols api df idx) idx
        (''Location Cloud ID '' @ str_of_nat (max_number_for_row df idx 0 cols + 1)) = Str vid) \<and>
   (col \<in> set cols \<longrightarrow> has_value df idx col \<longrightarrow> col \<noteq> ''Location Cloud ID'' \<longrightarrow>
    py_isdigit (number_str ''Location Cloud ID'' col) \<longrightarrow>
      py_int (number_str ''Location Cloud ID'' col) < max_number_for_row df idx 0 cols + 1) \<and>
   (''Location Cloud ID '' @ str_of_nat (max_number_for_row df idx 0 cols + 1) \<in> set cols \<longrightarrow>
      \<not> has_value df idx
          (''Location Cloud ID '' @ str_of_nat (max_number_for_row df idx 0 cols + 1))) \<and>
   (j < length (rows df) \<longrightarrow> c \<in> set (columns df) \<longrightarrow>
    (j \<noteq> idx \<or>
     c \<notin> set [''Location ID '' @ str_of_nat (max_number_for_row df idx 0 cols + 1),
                ''Location Cloud ID '' @ str_of_nat (max_number_for_row df idx 0 cols + 1),
                ''Location Type '' @ str_of_nat (max_number_for_row df idx 0 cols + 1),
                ''Practice Cloud ID '' @ str_of_nat (max_number_for_row df idx 0 cols + 1)]) \<longrightarrow>
      at_get (virtual_row cols api df idx) j c = at_get df j c)"
proof (intro conjI impI)
  assume "idx < length (rows df)" "i < length ms"
  from fill_slots_cell [OF this, of 1]
  show "at_get (fill_slots df idx 1 ms) idx (''Location Cloud ID '' @ str_of_nat (i + 1)) =
      external_id (ms ! i)" by (simp add: add.commute)
next
  assume "idx < length (rows df)" "i < length infos"
  from populate_slots_cell [OF this, of 1]
  show "at_get (populate_slots df idx 1 infos) idx (''Location Cloud ID '' @ str_of_nat (i + 1)) =
      Str (m_location_id (infos ! i))" by (simp add: add.commute)
next
  assume h: "idx < length (rows df)"
    and v: "virtual_for_row api df idx = Some (vid, vmono, vty, vpc)"
  have "virtual_row cols api df idx = append_virtual cols df idx (vid, vmono, vty, vpc)"
    using v by (simp add: virtual_row_def)
  then show "at_get (virtual_row cols api df idx) idx
        (''Location Cloud ID '' @ str_of_nat (max_number_for_row df idx 0 cols + 1)) = Str vid"
    using append_virtual_cloud [OF h, of cols vid vmono vty vpc] by (simp only:)
next
  assume "col \<in> set cols" "has_value df idx col" "col \<noteq> ''Location Cloud ID''"
    "py_isdigit (number_str ''Location Cloud ID'' col)"
  from max_number_bound [OF this, of 0]
  show "py_int (number_str ''Location Cloud ID'' col) < max_number_for_row df idx 0 cols + 1"
    by simp
next
  assume "''Location Cloud ID '' @ str_of_nat (max_number_for_row df idx 0 cols + 1) \<in> set cols"
  then show "\<not> has_value df idx
          (''Location Cloud ID '' @ str_of_nat (max_number_for_row df idx 0 cols + 1))"
    by (rule new_slot_free)
next
  assume a: "j < length (rows df)" "c \<in> set (columns df)"
    and b: "j \<noteq> idx \<or>
     c \<notin> set [''Location ID '' @ str_of_nat (max_number_for_row df idx 0 cols + 1),
                ''Location Cloud ID '' @ str_of_nat (max_number_for_row df idx 0 cols + 1),
                ''Location Type '' @ str_of_nat (max_number_for_row df idx 0 cols + 1),
                ''Practice Cloud ID '' @ str_of_nat (max_number_for_row df idx 0 cols + 1)]"
  show "at_get (virtual_row cols api df idx) j c = at_get df j c"
  proof (cases "virtual_for_row api df idx")
    case None
    then show ?thesis by (simp add: virtual_row_def)
  next
    case (Some v)
    have "at_get (append_virtual cols df idx v) j c = at_get df j c"
      using b by (intro append_virtual_existing [OF a]) auto
    then show ?thesis using Some by (simp add: virtual_row_def)
  qed
qed

theorem slot_numbering_witness:
  "0 < length (rows slot_frame) \<and> 0 < length one_match \<and> 0 < length ny_matches \<and>
   virtual_for_row [tx_sentinel ''virt_tx''] slot_frame 0 =
     Some (''virt_tx'', ''7001'', ''Virtual'', ''pt_555'') \<and>
   ''Location Cloud ID 1'' \<in> set slot_cols \<and> has_value slot_frame 0 ''Location Cloud ID 1'' \<and>
   py_isdigit (number_str ''Location Cloud ID'' ''Location Cloud ID 1'') \<and>
   ''Location Cloud ID '' @ str_of_nat (max_number_for_row slot_frame 0 0 slot_cols + 1)
     \<in> set slot_cols \<and>
   ''Location Cloud ID 1'' \<in> set (columns slot_frame) \<and>
   at_get (fill_slots slot_frame 0 1 one_match) 0 (''Location Cloud ID '' @ str_of_nat (0 + 1)) =
     external_id (one_match ! 0) \<and>
   at_get (populate_slots slot_frame 0 1 ny_matches) 0
     (''Location Cloud ID '' @ str_of_nat (0 + 1)) = Str (m_location_id (ny_matches ! 0)) \<and>
   at_get (virtual_row slot_cols [tx_sentinel ''virt_tx''] slot_frame 0) 0
     (''Location Cloud ID '' @ str_of_nat (max_number_for_row slot_frame 0 0 slot_cols + 1)) =
     Str ''virt_tx'' \<and>
   py_int (number_str ''Location Cloud ID'' ''Location Cloud ID 1'')
     < max_number_for_row slot_frame 0 0 slot_cols + 1 \<and>
   \<not> has_value slot_frame 0
       (''Location Cloud ID '' @ str_of_nat (max_number_for_row slot_frame 0 0 slot_cols + 1)) \<and>
   at_get (virtual_row slot_cols [tx_sentinel ''virt_tx''] slot_frame 0) 0 ''Location Cloud ID 1'' =
     at_get slot_frame 0 ''Location Cloud ID 1''"
proof -
  have h1: "0 < length (rows slot_frame)" by code_simp
  have h2: "0 < length one_match" by code_simp
  have h3: "0 < length ny_matches" by code_simp
  have h4: "virtual_for_row [tx_sentinel ''virt_tx''] slot_frame 0 =
     Some (''virt_tx'', ''7001'', ''Virtual'', ''pt_555'')" by code_simp
  have h5: "''Location Cloud ID 1'' \<in> set slot_cols" by code_simp
  have h6: "has_value slot_frame 0 ''Location Cloud ID 1''" by code_simp
  have h7: "''Location Cloud ID 1'' \<noteq> ''Location Cloud ID''" by simp
  have h8: "py_isdigit (number_str ''Location Cloud ID'' ''Location Cloud ID 1'')" by code_simp
  have h9: "''Location Cloud ID '' @ str_of_nat (max_number_for_row slot_frame 0 0 slot_cols + 1)
     \<in> set slot_cols" by code_simp
  have h10: "''Location Cloud ID 1'' \<in> set (columns slot_frame)" by code_simp
  have h11: "''Location Cloud ID 1'' \<notin>
     set [''Location ID '' @ str_of_nat (max_number_for_row slot_frame 0 0 slot_cols + 1),
          ''Location Cloud ID '' @ str_of_nat (max_number_for_row slot_frame 0 0 slot_cols + 1),
          ''Location Type '' @ str_of_nat (max_number_for_row slot_frame 0 0 slot_cols + 1),
          ''Practice Cloud ID '' @ str_of_nat (max_number_for_row slot_frame 0 0 slot_cols + 1)]"
    by code_simp
  note t = slot_numbering [where idx = 0 and df = slot_frame and i = 0 and ms = one_match
      and infos = ny_matches and api = "[tx_sentinel ''virt_tx'']" and vid = "''virt_tx''"
      and vmono = "''7001''" and vty = "''Virtual''" and vpc = "''pt_555''" and cols = slot_cols
      and col = "''Location Cloud ID 1''" and j = 0 and c = "''Location Cloud ID 1''"]
  from t h1 h2 h3 h4 h5 h6 h7 h8 h9 h10 h11 show ?thesis by blast
qed

theorem partial_ids_leave_gap:
  "strategies_run SequenceMatcher_ratio partial_frame partial_catalog = [Case1] \<and>
   at_get (snd (primary_pass SequenceMatcher_ratio partial_frame partial_catalog)) 0
     ''Location Cloud ID 1'' = Str [] \<and>
   at_get (snd (primary_pass SequenceMatcher_ratio partial_frame partial_catalog)) 0
     ''Location Cloud ID 2'' = Str ''loc_tx'' \<and>
   at_get (add_virtual_locations_after_matching
             (snd (primary_pass SequenceMatcher_ratio partial_frame partial_catalog))
             partial_catalog) 0 ''Location Cloud ID 1'' = Str [] \<and>
   at_get (add_virtual_locations_after_matching
             (snd (primary_pass SequenceMatcher_ratio partial_frame partial_catalog))
             partial_catalog) 0 ''Location Cloud ID 3'' = Str ''virt_tx''"
  by code_simp


end
